theory Spec2Isabelle
  imports Complex_Main
begin

section \<open>JavaScript strings, arrays and JSON values\<close>

text \<open>
  A string is a list of code units; the model covers the code units below 256, which
  is what \<^typ>\<open>char\<close> holds. Numbers that count things (lengths, message counts,
  millisecond timestamps) are integers; they stay far below \<open>2 ^ 53\<close>, where the
  arithmetic of the runtime is exact. A token budget is a rational number.
\<close>

definition is_ws :: "char \<Rightarrow> bool" where
  \<comment> \<open>white space and line terminators of ECMAScript, as \<open>trim\<close> and \<open>\s\<close> read them\<close>
  "is_ws c \<longleftrightarrow> c \<in> set [CHR 0x09, CHR 0x0A, CHR 0x0B, CHR 0x0C, CHR 0x0D, CHR 0x20, CHR 0xA0]"

definition trim :: "string \<Rightarrow> string" where
  "trim s = rev (dropWhile is_ws (rev (dropWhile is_ws s)))"

text \<open>\<open>s.split(sep)\<close> for a separator of one code unit: the empty string gives one empty piece.\<close>

fun split_on :: "char \<Rightarrow> string \<Rightarrow> string list" where
  "split_on sep [] = [[]]"
| "split_on sep (c # cs) =
     (if c = sep then [] # split_on sep cs
      else (case split_on sep cs of [] \<Rightarrow> [[c]] | l # ls \<Rightarrow> (c # l) # ls))"

text \<open>\<open>xs.join(sep)\<close>.\<close>

fun join :: "string \<Rightarrow> string list \<Rightarrow> string" where
  "join sep [] = []"
| "join sep [x] = x"
| "join sep (x # y # ys) = x @ sep @ join sep (y # ys)"

text \<open>
  \<open>xs.slice(start)\<close> and \<open>xs.slice(0, end)\<close>: a negative index counts from the end, and
  every index is clamped to the array.
\<close>

definition slice_from :: "int \<Rightarrow> 'a list \<Rightarrow> 'a list" where
  "slice_from start xs =
     (if start < 0 then drop (nat (int (length xs) + start)) xs else drop (nat start) xs)"

definition slice_to :: "int \<Rightarrow> 'a list \<Rightarrow> 'a list" where
  "slice_to end xs =
     (if end < 0 then take (nat (int (length xs) + end)) xs else take (nat end) xs)"

text \<open>\<open>s.includes(t)\<close>.\<close>

fun str_includes :: "string \<Rightarrow> string \<Rightarrow> bool" where
  "str_includes [] t = (t = [])"
| "str_includes (c # cs) t = (take (length t) (c # cs) = t \<or> str_includes cs t)"

fun findIndex :: "('a \<Rightarrow> bool) \<Rightarrow> 'a list \<Rightarrow> nat option" where
  "findIndex p [] = None"
| "findIndex p (x # xs) = (if p x then Some 0 else map_option Suc (findIndex p xs))"

text \<open>
  The values \<open>JSON.parse\<close> returns. \<open>JSON.parse\<close> and \<open>JSON.stringify\<close> belong to the
  runtime: the functions below take them as parameters, \<open>parse\<close> returning \<open>None\<close> where
  \<open>JSON.parse\<close> throws.
\<close>

datatype json =
    JNull
  | JBool bool
  | JNum rat
  | JStr string
  | JArr "json list"
  | JObj "(string \<times> json) list"

datatype jsval = Undefined | Val json

datatype js_error = SyntaxError | TypeError | IOError

text \<open>
  \<open>v.name\<close> for a name that no string, number, boolean or array has as a property of its
  own or of its prototype (\<open>cwd\<close>, \<open>uploaded\<close>): reading it off \<open>null\<close> throws.
\<close>

fun get_field :: "json \<Rightarrow> string \<Rightarrow> js_error + jsval" where
  "get_field JNull k = Inl TypeError"
| "get_field (JObj kvs) k = Inr (case map_of kvs k of None \<Rightarrow> Undefined | Some v \<Rightarrow> Val v)"
| "get_field v k = Inr Undefined"

fun truthy :: "jsval \<Rightarrow> bool" where
  "truthy Undefined = False"
| "truthy (Val JNull) = False"
| "truthy (Val (JBool b)) = b"
| "truthy (Val (JNum n)) = (n \<noteq> 0)"
| "truthy (Val (JStr s)) = (s \<noteq> [])"
| "truthy (Val v) = True"

text \<open>An optional string argument used as a condition: absent and empty are both false.\<close>

fun given :: "string option \<Rightarrow> bool" where
  "given None = False"
| "given (Some s) = (s \<noteq> [])"

text \<open>\<open>xs.map(f)\<close> and \<open>xs.filter(p)\<close> where the callback may throw: the first throw ends the call.\<close>

fun try_map :: "('a \<Rightarrow> 'e + 'b) \<Rightarrow> 'a list \<Rightarrow> 'e + 'b list" where
  "try_map f [] = Inr []"
| "try_map f (x # xs) =
     (case f x of Inl e \<Rightarrow> Inl e
      | Inr y \<Rightarrow> (case try_map f xs of Inl e \<Rightarrow> Inl e | Inr ys \<Rightarrow> Inr (y # ys)))"

fun try_filter :: "('a \<Rightarrow> 'e + bool) \<Rightarrow> 'a list \<Rightarrow> 'e + 'a list" where
  "try_filter p [] = Inr []"
| "try_filter p (x # xs) =
     (case p x of Inl e \<Rightarrow> Inl e
      | Inr b \<Rightarrow> (case try_filter p xs of Inl e \<Rightarrow> Inl e
                  | Inr ys \<Rightarrow> Inr (if b then x # ys else ys)))"

section \<open>Message queue (cache.ts)\<close>

text \<open>
  The queue file is \<open>None\<close> while it does not exist, else its text. The queue and the
  work log are modelled in a cache directory that exists, where \<open>ensureCacheDir\<close> does
  nothing.
\<close>

definition newline :: string where
  "newline = [CHR 0x0A]"

definition queue_lines :: "string \<Rightarrow> string list" where
  \<comment> \<open>\<open>content.split("\n").filter((line) => line.trim())\<close>\<close>
  "queue_lines txt = filter (\<lambda>line. trim line \<noteq> []) (split_on (CHR 0x0A) txt)"

record queued =
  content :: string
  peerId :: string
  cwd :: string
  timestamp :: string
  instanceId :: "string option"

text \<open>The message object that \<open>queueMessage\<close> serialises: \<open>uploaded\<close> is false, an undefined
  \<open>instanceId\<close> is left out by \<open>JSON.stringify\<close>.\<close>

definition message_json :: "queued \<Rightarrow> json" where
  "message_json m =
     JObj ([(''content'', JStr (content m)), (''peerId'', JStr (peerId m)),
            (''cwd'', JStr (cwd m)), (''timestamp'', JStr (timestamp m)),
            (''uploaded'', JBool False)]
           @ (case instanceId m of None \<Rightarrow> [] | Some i \<Rightarrow> [(''instanceId'', JStr i)]))"

text \<open>
  \<open>queueMessage\<close>: \<open>now\<close> is the clock's \<open>toISOString()\<close>, \<open>stored\<close> what
  \<open>getClaudeInstanceId()\<close> returns. \<open>appendFileSync\<close> creates the file when it is missing.
\<close>

definition make_message ::
  "string \<Rightarrow> string option \<Rightarrow> string \<Rightarrow> string \<Rightarrow> string \<Rightarrow> string option \<Rightarrow> queued" where
  "make_message now stored content' peerId' cwd' instanceId' =
     \<lparr>content = content', peerId = peerId', cwd = cwd', timestamp = now,
      instanceId = (if given instanceId' then instanceId'
                    else if given stored then stored else None)\<rparr>"

definition queueMessage ::
  "(json \<Rightarrow> string) \<Rightarrow> string \<Rightarrow> string option \<Rightarrow>
   string \<Rightarrow> string \<Rightarrow> string \<Rightarrow> string option \<Rightarrow> string option \<Rightarrow> string option" where
  "queueMessage stringify now stored content' peerId' cwd' instanceId' file =
     (let message = make_message now stored content' peerId' cwd' instanceId'
      in Some ((case file of None \<Rightarrow> [] | Some old \<Rightarrow> old)
               @ stringify (message_json message) @ newline))"

text \<open>A run of \<open>queueMessage\<close> calls, each with its arguments, the clock and the stored
  instance id at the time of the call.\<close>

record enqueue =
  clock :: string
  stored_id :: "string option"
  arg_content :: string
  arg_peerId :: string
  arg_cwd :: string
  arg_instanceId :: "string option"

definition message_of :: "enqueue \<Rightarrow> queued" where
  "message_of c =
     make_message (clock c) (stored_id c) (arg_content c) (arg_peerId c) (arg_cwd c) (arg_instanceId c)"

fun queue_all :: "(json \<Rightarrow> string) \<Rightarrow> enqueue list \<Rightarrow> string option \<Rightarrow> string option" where
  "queue_all stringify [] file = file"
| "queue_all stringify (c # cs) file =
     queue_all stringify cs
       (queueMessage stringify (clock c) (stored_id c) (arg_content c) (arg_peerId c) (arg_cwd c)
          (arg_instanceId c) file)"

definition read_queue :: "(string \<Rightarrow> json option) \<Rightarrow> string option \<Rightarrow> string \<Rightarrow> js_error + json list" where
  \<comment> \<open>the body of the \<open>try\<close> of \<open>getQueuedMessages\<close>\<close>
  "read_queue parse forCwd txt =
     (case try_map (\<lambda>line. case parse line of None \<Rightarrow> Inl SyntaxError | Some v \<Rightarrow> Inr v)
             (queue_lines txt) of
        Inl e \<Rightarrow> Inl e
      | Inr parsed \<Rightarrow>
          (case try_filter (\<lambda>msg. map_sum id (\<lambda>u. \<not> truthy u) (get_field msg ''uploaded'')) parsed of
             Inl e \<Rightarrow> Inl e
           | Inr messages \<Rightarrow>
               (if given forCwd
                then try_filter (\<lambda>msg. map_sum id (\<lambda>c. c = Val (JStr (the forCwd)))
                                         (get_field msg ''cwd'')) messages
                else Inr messages)))"

definition getQueuedMessages :: "(string \<Rightarrow> json option) \<Rightarrow> string option \<Rightarrow> string option \<Rightarrow> json list" where
  "getQueuedMessages parse forCwd file =
     (case file of None \<Rightarrow> []
      | Some txt \<Rightarrow> (case read_queue parse forCwd txt of Inl e \<Rightarrow> [] | Inr ms \<Rightarrow> ms))"

definition clearMessageQueue :: "string option" where
  "clearMessageQueue = Some []"

definition remains :: "(string \<Rightarrow> json option) \<Rightarrow> string \<Rightarrow> string \<Rightarrow> bool" where
  \<comment> \<open>the callback of \<open>lines.filter\<close> in \<open>markMessagesUploaded\<close>, with its own \<open>try\<close>\<close>
  "remains parse forCwd line =
     (case parse line of None \<Rightarrow> False
      | Some msg \<Rightarrow> (case get_field msg ''cwd'' of Inl e \<Rightarrow> False
                     | Inr c \<Rightarrow> c \<noteq> Val (JStr forCwd)))"

definition markMessagesUploaded :: "(string \<Rightarrow> json option) \<Rightarrow> string option \<Rightarrow> string option \<Rightarrow> string option" where
  "markMessagesUploaded parse forCwd file =
     (if \<not> given forCwd then clearMessageQueue
      else (case file of None \<Rightarrow> None
            | Some txt \<Rightarrow>
                (let remaining = filter (remains parse (the forCwd)) (queue_lines txt)
                 in Some (join newline remaining @ (if remaining \<noteq> [] then newline else [])))))"

section \<open>Identity cache and context cache (cache.ts)\<close>

text \<open>
  A cache file holds one JSON document. The functions read it at the declared interface
  type: \<open>decode\<close> stands for \<open>JSON.parse\<close> (\<open>None\<close> where it throws) and \<open>encode\<close> for
  \<open>JSON.stringify(cache, null, 2)\<close>. Writing a file in a directory that exists is taken to
  succeed.

  The disk, as far as the caches go: the cache directory and the two cache files, each
  \<open>None\<close> while it does not exist. A directory that is absent can be created or not
  (a home directory that cannot be written, a file in the place of the directory): in
  \<open>Absent ok\<close> the flag tells whether \<open>mkdirSync\<close> would succeed.
\<close>

datatype dir_state = Present | Absent bool

record disk =
  CACHE_DIR :: dir_state
  ID_CACHE_FILE :: "string option"
  CONTEXT_CACHE_FILE :: "string option"

definition ensureCacheDir :: "dir_state \<Rightarrow> js_error + dir_state" where
  \<comment> \<open>\<open>if (!existsSync(CACHE_DIR)) mkdirSync(CACHE_DIR, { recursive: true })\<close>\<close>
  "ensureCacheDir d =
     (case d of Present \<Rightarrow> Inr Present
      | Absent ok \<Rightarrow> if ok then Inr Present else Inl IOError)"

record IdCache =
  workspace :: "(string \<times> string) option"
  peers :: "(string \<times> string) list option"
  sessions :: "(string \<times> string \<times> string \<times> string) list option"
  claudeInstanceId :: "string option"

definition empty_IdCache :: IdCache where
  "empty_IdCache = \<lparr>workspace = None, peers = None, sessions = None, claudeInstanceId = None\<rparr>"

definition read_document :: "(string \<Rightarrow> 'doc option) \<Rightarrow> string \<Rightarrow> js_error + 'doc" where
  \<comment> \<open>the body of the \<open>try\<close> of a load: \<open>JSON.parse(readFileSync(file, "utf-8"))\<close>\<close>
  "read_document decode txt = (case decode txt of None \<Rightarrow> Inl SyntaxError | Some doc \<Rightarrow> Inr doc)"

text \<open>A load calls \<open>ensureCacheDir\<close> first, outside its \<open>try\<close>: what \<open>mkdirSync\<close> throws leaves
  the load. It returns the document and the disk, on which the directory now exists.\<close>

definition loadIdCache :: "(string \<Rightarrow> IdCache option) \<Rightarrow> disk \<Rightarrow> js_error + IdCache \<times> disk" where
  "loadIdCache decode dsk =
     (case ensureCacheDir (CACHE_DIR dsk) of
        Inl e \<Rightarrow> Inl e
      | Inr d \<Rightarrow>
          Inr (case ID_CACHE_FILE dsk of
                 None \<Rightarrow> empty_IdCache
               | Some txt \<Rightarrow>
                   (case read_document decode txt of Inl e \<Rightarrow> empty_IdCache | Inr doc \<Rightarrow> doc),
               dsk\<lparr>CACHE_DIR := d\<rparr>))"

record 'd fetched =
  data :: 'd
  fetchedAt :: int

record 'd ContextCache =
  userContext :: "'d fetched option"
  clawdContext :: "'d fetched option"
  summaries :: "'d fetched option"
  messageCount :: "int option"
  lastRefreshMessageCount :: "int option"

definition empty_ContextCache :: "'d ContextCache" where
  "empty_ContextCache =
     \<lparr>userContext = None, clawdContext = None, summaries = None, messageCount = None,
      lastRefreshMessageCount = None\<rparr>"

text \<open>What \<open>getContextRefreshConfig()\<close> returns, as far as this module reads it.\<close>

record refresh_config =
  ttlSeconds :: "int option"
  messageThreshold :: "int option"

definition getContextTTL :: "refresh_config \<Rightarrow> int" where
  "getContextTTL config = (case ttlSeconds config of None \<Rightarrow> 300 | Some t \<Rightarrow> t) * 1000"

definition getMessageRefreshThreshold :: "refresh_config \<Rightarrow> int" where
  "getMessageRefreshThreshold config = (case messageThreshold config of None \<Rightarrow> 50 | Some t \<Rightarrow> t)"

definition loadContextCache ::
  "(string \<Rightarrow> 'd ContextCache option) \<Rightarrow> disk \<Rightarrow> js_error + 'd ContextCache \<times> disk" where
  "loadContextCache decode dsk =
     (case ensureCacheDir (CACHE_DIR dsk) of
        Inl e \<Rightarrow> Inl e
      | Inr d \<Rightarrow>
          Inr (case CONTEXT_CACHE_FILE dsk of
                 None \<Rightarrow> empty_ContextCache
               | Some txt \<Rightarrow>
                   (case read_document decode txt of Inl e \<Rightarrow> empty_ContextCache | Inr doc \<Rightarrow> doc),
               dsk\<lparr>CACHE_DIR := d\<rparr>))"

definition saveContextCache ::
  "('d ContextCache \<Rightarrow> string) \<Rightarrow> 'd ContextCache \<Rightarrow> disk \<Rightarrow> js_error + disk" where
  "saveContextCache encode cache dsk =
     (case ensureCacheDir (CACHE_DIR dsk) of
        Inl e \<Rightarrow> Inl e
      | Inr d \<Rightarrow> Inr (dsk\<lparr>CACHE_DIR := d, CONTEXT_CACHE_FILE := Some (encode cache)\<rparr>))"

text \<open>The getters return \<open>None\<close> for \<open>null\<close>; \<open>now\<close> is \<open>Date.now()\<close>. A function that only
  reads returns its value; the functions that write return the disk.\<close>

definition getCachedUserContext ::
  "(string \<Rightarrow> 'd ContextCache option) \<Rightarrow> refresh_config \<Rightarrow> int \<Rightarrow> disk \<Rightarrow> js_error + 'd option" where
  "getCachedUserContext decode config now dsk =
     (case loadContextCache decode dsk of
        Inl e \<Rightarrow> Inl e
      | Inr (cache, dsk') \<Rightarrow>
          Inr (case userContext cache of
                 None \<Rightarrow> None
               | Some u \<Rightarrow> if now - fetchedAt u < getContextTTL config then Some (data u) else None))"

definition setCachedUserContext ::
  "(string \<Rightarrow> 'd ContextCache option) \<Rightarrow> ('d ContextCache \<Rightarrow> string) \<Rightarrow> int \<Rightarrow> 'd \<Rightarrow>
   disk \<Rightarrow> js_error + disk" where
  "setCachedUserContext decode encode now d dsk =
     (case loadContextCache decode dsk of
        Inl e \<Rightarrow> Inl e
      | Inr (cache, dsk') \<Rightarrow>
          saveContextCache encode (cache\<lparr>userContext := Some \<lparr>data = d, fetchedAt = now\<rparr>\<rparr>) dsk')"


text \<open>\<open>cache.messageCount || 0\<close>: an absent count and a count of zero both read as zero.\<close>

definition or_zero :: "int option \<Rightarrow> int" where
  "or_zero n = (case n of None \<Rightarrow> 0 | Some k \<Rightarrow> if k = 0 then 0 else k)"

definition incrementMessageCount ::
  "(string \<Rightarrow> 'd ContextCache option) \<Rightarrow> ('d ContextCache \<Rightarrow> string) \<Rightarrow> disk \<Rightarrow>
   js_error + int \<times> disk" where
  "incrementMessageCount decode encode dsk =
     (case loadContextCache decode dsk of
        Inl e \<Rightarrow> Inl e
      | Inr (cache, dsk') \<Rightarrow>
          (let cache = cache\<lparr>messageCount := Some (or_zero (messageCount cache) + 1)\<rparr>
           in case saveContextCache encode cache dsk' of
                Inl e \<Rightarrow> Inl e
              | Inr dsk'' \<Rightarrow> Inr (or_zero (messageCount cache), dsk'')))"

definition shouldRefreshKnowledgeGraph ::
  "(string \<Rightarrow> 'd ContextCache option) \<Rightarrow> refresh_config \<Rightarrow> disk \<Rightarrow> js_error + bool" where
  "shouldRefreshKnowledgeGraph decode config dsk =
     (case loadContextCache decode dsk of
        Inl e \<Rightarrow> Inl e
      | Inr (cache, dsk') \<Rightarrow>
          (let currentCount = or_zero (messageCount cache);
               lastRefresh = or_zero (lastRefreshMessageCount cache)
           in Inr (currentCount - lastRefresh \<ge> getMessageRefreshThreshold config)))"

definition markKnowledgeGraphRefreshed ::
  "(string \<Rightarrow> 'd ContextCache option) \<Rightarrow> ('d ContextCache \<Rightarrow> string) \<Rightarrow> disk \<Rightarrow> js_error + disk" where
  "markKnowledgeGraphRefreshed decode encode dsk =
     (case loadContextCache decode dsk of
        Inl e \<Rightarrow> Inl e
      | Inr (cache, dsk') \<Rightarrow>
          saveContextCache encode
            (cache\<lparr>lastRefreshMessageCount := Some (or_zero (messageCount cache))\<rparr>) dsk')"

definition resetMessageCount ::
  "(string \<Rightarrow> 'd ContextCache option) \<Rightarrow> ('d ContextCache \<Rightarrow> string) \<Rightarrow> disk \<Rightarrow> js_error + disk" where
  "resetMessageCount decode encode dsk =
     (case loadContextCache decode dsk of
        Inl e \<Rightarrow> Inl e
      | Inr (cache, dsk') \<Rightarrow>
          saveContextCache encode
            (cache\<lparr>messageCount := Some 0, lastRefreshMessageCount := Some 0\<rparr>) dsk')"

text \<open>\<open>k\<close> calls of \<open>incrementMessageCount\<close>, one after the other; a call that throws ends
  the run.\<close>

fun increments ::
  "(string \<Rightarrow> 'd ContextCache option) \<Rightarrow> ('d ContextCache \<Rightarrow> string) \<Rightarrow> nat \<Rightarrow> disk \<Rightarrow>
   js_error + disk" where
  "increments decode encode 0 dsk = Inr dsk"
| "increments decode encode (Suc k) dsk =
     (case incrementMessageCount decode encode dsk of
        Inl e \<Rightarrow> Inl e
      | Inr (n, dsk') \<Rightarrow> increments decode encode k dsk')"

section \<open>Work log (cache.ts)\<close>

definition loadClawdLocalContext :: "string option \<Rightarrow> string" where
  "loadClawdLocalContext file = (case file of None \<Rightarrow> [] | Some txt \<Rightarrow> txt)"

definition saveClawdLocalContext :: "string \<Rightarrow> string option" where
  "saveClawdLocalContext txt = Some txt"

definition activity_header :: string where
  "activity_header = ''## Recent Activity''"

definition seed_context :: string where
  "seed_context =
     ''# CLAWD Work Context'' @ newline @ newline
     @ ''Auto-generated log of CLAWD's recent work.'' @ newline @ newline
     @ activity_header @ newline"

text \<open>\<open>maxEntries\<close> is the field of \<open>getLocalContextConfig()\<close>, \<open>now\<close> the clock's \<open>toISOString()\<close>.\<close>

definition appendClawdWork :: "int \<Rightarrow> string \<Rightarrow> string \<Rightarrow> string option \<Rightarrow> string option" where
  "appendClawdWork maxEntries now workDescription file =
     (let entry = newline @ ''- ['' @ now @ ''] '' @ workDescription;
          existing = loadClawdLocalContext file;
          existing = (if existing = [] then seed_context else existing);
          lines = split_on (CHR 0x0A) existing;
          existing =
            (case findIndex (\<lambda>l. str_includes l activity_header) lines of
               None \<Rightarrow> existing
             | Some activityStart \<Rightarrow>
                 (let header = take (activityStart + 1) lines;
                      activities = filter (\<lambda>l. trim l \<noteq> []) (drop (activityStart + 1) lines);
                      recentActivities = slice_from (- (maxEntries - 1)) activities
                  in join newline (header @ recentActivities)))
      in saveClawdLocalContext (existing @ entry))"

text \<open>The entries of a work log, read the way \<open>appendClawdWork\<close> reads them: the lines that are
  not blank after the first line with the header.\<close>

definition activity_entries :: "string \<Rightarrow> string list" where
  "activity_entries txt =
     (let lines = split_on (CHR 0x0A) txt
      in case findIndex (\<lambda>l. str_includes l activity_header) lines of
           None \<Rightarrow> []
         | Some activityStart \<Rightarrow> filter (\<lambda>l. trim l \<noteq> []) (drop (activityStart + 1) lines))"

section \<open>Token estimate and fact deduplication (context-format.ts)\<close>

definition estimateTokens :: "string \<Rightarrow> int" where
  "estimateTokens txt = \<lceil>rat_of_nat (length txt) / 4\<rceil>"

text \<open>The budget \<open>maxTokens\<close> is a number, not only a whole one; \<open>slice\<close> cuts a fractional
  index towards zero.\<close>

definition to_integer :: "rat \<Rightarrow> int" where
  "to_integer x = (if x < 0 then \<lceil>x\<rceil> else \<lfloor>x\<rfloor>)"

definition truncateToTokens :: "string \<Rightarrow> rat \<Rightarrow> string" where
  "truncateToTokens txt maxTokens =
     (let maxChars = maxTokens * 4
      in if rat_of_nat (length txt) \<le> maxChars then txt
         else slice_to (to_integer (maxChars - 3)) txt @ ''...'')"








section \<open>Context formatter (context-format.ts)\<close>

datatype ContextTier = Essential | Extended | Deep

record ContextConfig =
  tier :: ContextTier
  maxTokens :: "int option"
  includeDialectic :: "bool option"
  compressedFormat :: "bool option"

datatype explicit = Explicit (fact_content: string) (fact_source: "string option")

datatype deductive = Deductive (conclusion: string) (insight_premises: "string list option")

record UserContext =
  peerCard :: "string list option"
  explicit :: "explicit list option"
  deductive :: "deductive list option"

record SessionContext =
  shortSummary :: "string option"
  longSummary :: "string option"

record GitContext =
  branch :: "string option"
  commit :: "string option"
  isDirty :: "bool option"
  dirtyFiles :: "string list option"

datatype Confidence = High | Medium | Low

record FeatureContext =
  feature_type :: string
  description :: string
  feature_keywords :: "string list option"
  feature_areas :: "string list option"
  confidence :: Confidence

record user_part =
  user_name :: string
  user_context :: "UserContext option"
  user_dialectic :: "string option"

record ai_part =
  ai_name :: string
  ai_context :: "UserContext option"
  ai_dialectic :: "string option"
  ai_localWork :: "string option"

record session_part =
  session_name :: string
  session_workspace :: string
  session_cwd :: string
  session_context :: "SessionContext option"

record FullContext =
  user :: user_part
  ai :: ai_part
  session :: session_part
  git :: "GitContext option"
  feature :: "FeatureContext option"
  changes :: "string list option"

record budget =
  total :: nat
  user_facts :: nat
  user_insights :: nat
  user_profile :: nat
  ai_facts :: nat
  ai_work :: nat
  session_summary :: nat
  header_budget :: nat

fun TIER_BUDGETS :: "ContextTier \<Rightarrow> budget" where
  "TIER_BUDGETS Essential =
     \<lparr>total = 300, user_facts = 3, user_insights = 2, user_profile = 50, ai_facts = 3,
      ai_work = 100, session_summary = 50, header_budget = 80\<rparr>"
| "TIER_BUDGETS Extended =
     \<lparr>total = 800, user_facts = 8, user_insights = 5, user_profile = 100, ai_facts = 8,
      ai_work = 200, session_summary = 150, header_budget = 100\<rparr>"
| "TIER_BUDGETS Deep =
     \<lparr>total = 2000, user_facts = 15, user_insights = 10, user_profile = 150, ai_facts = 15,
      ai_work = 400, session_summary = 400, header_budget = 150\<rparr>"

text \<open>A flag used as a condition: absent counts as false.\<close>

definition flag :: "bool option \<Rightarrow> bool" where
  "flag b = (case b of None \<Rightarrow> False | Some v \<Rightarrow> v)"

text \<open>A count in a template string, and the possessive of a name.\<close>

fun digits :: "nat \<Rightarrow> string" where
  "digits n =
     (if n < 10 then [char_of (48 + n)] else digits (n div 10) @ [char_of (48 + n mod 10)])"

definition possessive :: "string \<Rightarrow> string" where
  "possessive name = name @ [CHR 0x27, CHR ''s'']"

definition confidence_text :: "Confidence \<Rightarrow> string" where
  "confidence_text c = (case c of High \<Rightarrow> ''high'' | Medium \<Rightarrow> ''medium'' | Low \<Rightarrow> ''low'')"

definition dirty_count :: "GitContext \<Rightarrow> nat" where
  \<comment> \<open>\<open>dirtyFiles?.length || 0\<close>\<close>
  "dirty_count g = (case dirtyFiles g of None \<Rightarrow> 0 | Some fs \<Rightarrow> length fs)"

text \<open>\<open>if (xs?.length) { ... }\<close> and \<open>if (s) { ... }\<close>: the body runs on a list, or a string,
  that is present and not empty.\<close>

definition when_items :: "'a list option \<Rightarrow> ('a list \<Rightarrow> 'b list) \<Rightarrow> 'b list" where
  "when_items xs body = (case xs of None \<Rightarrow> [] | Some ys \<Rightarrow> if ys \<noteq> [] then body ys else [])"

definition when_text :: "string option \<Rightarrow> (string \<Rightarrow> 'b list) \<Rightarrow> 'b list" where
  "when_text s body = (case s of None \<Rightarrow> [] | Some t \<Rightarrow> if t \<noteq> [] then body t else [])"

definition buildCompactHeader :: "FullContext \<Rightarrow> string" where
  "buildCompactHeader ctx =
     (let parts = [''user='' @ user_name (user ctx), ''ai='' @ ai_name (ai ctx),
                   ''ws='' @ session_workspace (session ctx),
                   ''session='' @ session_name (session ctx)];
          parts = parts @ (case git ctx of None \<Rightarrow> []
                   | Some g \<Rightarrow> when_text (branch g) (\<lambda>b. [''branch='' @ b]));
          parts = parts @ (case git ctx of None \<Rightarrow> []
                   | Some g \<Rightarrow> when_text (commit g) (\<lambda>c. [''head='' @ take 7 c]));
          parts = parts @ (case git ctx of None \<Rightarrow> []
                   | Some g \<Rightarrow> if flag (isDirty g) then [''dirty='' @ digits (dirty_count g)] else [])
      in join '' | '' parts)"

definition buildCompactUserFacts :: "UserContext option \<Rightarrow> nat \<Rightarrow> nat \<Rightarrow> string list" where
  "buildCompactUserFacts context maxFacts maxInsights =
     (case context of None \<Rightarrow> []
      | Some c \<Rightarrow>
          when_items (explicit c)
            (\<lambda>es. let facts = join ''; '' (map fact_content (take maxFacts es))
                  in if facts \<noteq> [] then [''facts: '' @ facts] else [])
          @ when_items (deductive c)
              (\<lambda>ds. let insights = join ''; '' (map conclusion (take maxInsights ds))
                    in if insights \<noteq> [] then [''insights: '' @ insights] else [])
          @ when_items (peerCard c)
              (\<lambda>ps. let profile = join ''; '' (take 3 ps)
                    in if profile \<noteq> [] then [''profile: '' @ profile] else []))"

definition buildCompactAIWork :: "UserContext option \<Rightarrow> string option \<Rightarrow> nat \<Rightarrow> nat \<Rightarrow> string list" where
  "buildCompactAIWork context localWork maxFacts maxWorkChars =
     (case context of None \<Rightarrow> []
      | Some c \<Rightarrow>
          when_items (explicit c)
            (\<lambda>es. let work = join ''; '' (map fact_content (take maxFacts es))
                  in if work \<noteq> [] then [''recent: '' @ work] else []))
     @ when_text localWork (\<lambda>w. [''local: '' @ take maxWorkChars w])"

definition buildCompactFeature :: "FeatureContext option \<Rightarrow> string" where
  "buildCompactFeature f =
     (case f of None \<Rightarrow> []
      | Some feat \<Rightarrow>
          if confidence feat = Low then []
          else join '' ''
                 ([feature_type feat @ '': '' @ description feat]
                  @ when_items (feature_keywords feat)
                      (\<lambda>ks. [''keywords=['' @ join '','' (take 5 ks) @ '']''])
                  @ when_items (feature_areas feat)
                      (\<lambda>as. [''areas=['' @ join '','' (take 3 as) @ '']''])))"

definition buildVerboseHeader :: "FullContext \<Rightarrow> string list" where
  "buildVerboseHeader ctx =
     [''## Session Context'', ''- User: '' @ user_name (user ctx), ''- AI: '' @ ai_name (ai ctx),
      ''- Workspace: '' @ session_workspace (session ctx),
      ''- Session: '' @ session_name (session ctx),
      ''- Directory: '' @ session_cwd (session ctx)]
     @ (case git ctx of None \<Rightarrow> []
        | Some g \<Rightarrow>
            when_text (branch g)
              (\<lambda>b. [''- Branch: '' @ b]
                    @ when_text (commit g) (\<lambda>c. [''- HEAD: '' @ c])
                    @ (if flag (isDirty g)
                       then [''- Uncommitted: '' @ digits (dirty_count g) @ '' files''] else [])))"

definition insight_line :: "deductive \<Rightarrow> string" where
  "insight_line d =
     ''- '' @ conclusion d
     @ concat (when_items (insight_premises d) (\<lambda>ps. ['' (from: '' @ join '', '' ps @ '')'']))"

definition buildVerboseUserContext ::
  "string \<Rightarrow> UserContext option \<Rightarrow> string option \<Rightarrow> nat \<Rightarrow> nat \<Rightarrow> string list" where
  "buildVerboseUserContext name context dialectic maxFacts maxInsights =
     (case context of None \<Rightarrow> []
      | Some c \<Rightarrow>
          when_items (peerCard c)
            (\<lambda>ps. [''## '' @ possessive name @ '' Profile''] @ map (\<lambda>p. ''- '' @ p) ps)
          @ when_items (explicit c)
              (\<lambda>es. [''## What I Know About '' @ name, ''### Facts'']
                    @ map (\<lambda>e. ''- '' @ fact_content e) (take maxFacts es))
          @ when_items (deductive c)
              (\<lambda>ds. [''### Insights''] @ map insight_line (take maxInsights ds)))
     @ when_text dialectic (\<lambda>d. [''## AI Summary of '' @ name, d])"

definition buildVerboseAIContext ::
  "string \<Rightarrow> UserContext option \<Rightarrow> string option \<Rightarrow> string option \<Rightarrow> nat \<Rightarrow> nat \<Rightarrow> string list" where
  "buildVerboseAIContext name context dialectic localWork maxFacts maxWorkChars =
     when_text localWork
       (\<lambda>w. [''## '' @ possessive name @ '' Local Context'', take maxWorkChars w])
     @ (case context of None \<Rightarrow> []
        | Some c \<Rightarrow>
            when_items (explicit c)
              (\<lambda>es. [''## '' @ possessive name @ '' Work History'']
                    @ map (\<lambda>e. ''- '' @ fact_content e) (take maxFacts es)))
     @ when_text dialectic (\<lambda>d. [''## AI Self-Reflection'', d])"

definition buildVerboseSessionSummary :: "SessionContext option \<Rightarrow> string list" where
  "buildVerboseSessionSummary s =
     (case s of None \<Rightarrow> []
      | Some sc \<Rightarrow>
          when_text (shortSummary sc) (\<lambda>t. [''## Recent Session Summary'', t])
          @ when_text (longSummary sc) (\<lambda>t. [''## Extended History'', t]))"

definition compressed_sections :: "FullContext \<Rightarrow> ContextConfig \<Rightarrow> string list" where
  \<comment> \<open>the array \<open>sections\<close> of \<open>formatCompressedContext\<close>\<close>
  "compressed_sections ctx config =
     (let budget = TIER_BUDGETS (tier config)
      in [''[honcho-memory]'', buildCompactHeader ctx]
         @ (if feature ctx \<noteq> None
            then (let featureLine = buildCompactFeature (feature ctx)
                  in if featureLine \<noteq> [] then [''feature: '' @ featureLine] else [])
            else [])
         @ when_items (changes ctx) (\<lambda>cs. [''changes: '' @ join ''; '' (take 3 cs)])
         @ [''['' @ user_name (user ctx) @ '']'']
         @ buildCompactUserFacts (user_context (user ctx)) (user_facts budget) (user_insights budget)
         @ [''['' @ ai_name (ai ctx) @ '']'']
         @ buildCompactAIWork (ai_context (ai ctx)) (ai_localWork (ai ctx)) (ai_facts budget)
             (ai_work budget)
         @ (if tier config \<noteq> Essential
            then (case session_context (session ctx) of None \<Rightarrow> []
                  | Some sc \<Rightarrow>
                      when_text (shortSummary sc)
                        (\<lambda>t. [''[session]'',
                              ''summary: '' @ truncateToTokens t (rat_of_nat (session_summary budget))]))
            else [])
         @ (if tier config = Deep \<and> flag (includeDialectic config)
            then when_text (user_dialectic (user ctx))
                   (\<lambda>d. [''['' @ user_name (user ctx) @ ''/ai-understanding]'', d])
                 @ when_text (ai_dialectic (ai ctx))
                     (\<lambda>d. [''['' @ ai_name (ai ctx) @ ''/self-reflection]'', d])
            else [])
         @ [''[end-memory]''])"

definition formatCompressedContext :: "FullContext \<Rightarrow> ContextConfig \<Rightarrow> string" where
  "formatCompressedContext ctx config = join newline (compressed_sections ctx config)"

definition verbose_sections :: "FullContext \<Rightarrow> ContextConfig \<Rightarrow> string list" where
  \<comment> \<open>the array \<open>sections\<close> of \<open>formatVerboseContext\<close>\<close>
  "verbose_sections ctx config =
     (let budget = TIER_BUDGETS (tier config)
      in buildVerboseHeader ctx
         @ (case feature ctx of None \<Rightarrow> []
            | Some feat \<Rightarrow>
                if confidence feat \<noteq> Low
                then [''## Inferred Feature Context'', ''- Type: '' @ feature_type feat,
                      ''- Description: '' @ description feat]
                     @ when_items (feature_keywords feat) (\<lambda>ks. [''- Keywords: '' @ join '', '' ks])
                     @ when_items (feature_areas feat) (\<lambda>as. [''- Areas: '' @ join '', '' as])
                     @ [''- Confidence: '' @ confidence_text (confidence feat)]
                else [])
         @ when_items (changes ctx)
             (\<lambda>cs. [''## Git Activity Since Last Session''] @ map (\<lambda>c. ''- '' @ c) cs)
         @ buildVerboseUserContext (user_name (user ctx)) (user_context (user ctx))
             (if flag (includeDialectic config) then user_dialectic (user ctx) else None)
             (user_facts budget) (user_insights budget)
         @ buildVerboseAIContext (ai_name (ai ctx)) (ai_context (ai ctx))
             (if flag (includeDialectic config) then ai_dialectic (ai ctx) else None)
             (ai_localWork (ai ctx)) (ai_facts budget) (ai_work budget)
         @ (if tier config \<noteq> Essential
            then buildVerboseSessionSummary (session_context (session ctx)) else []))"

definition formatVerboseContext :: "FullContext \<Rightarrow> ContextConfig \<Rightarrow> string" where
  "formatVerboseContext ctx config = join newline (verbose_sections ctx config)"

definition formatContext :: "FullContext \<Rightarrow> ContextConfig \<Rightarrow> string" where
  "formatContext ctx config =
     (if flag (compressedFormat config) then formatCompressedContext ctx config
      else formatVerboseContext ctx config)"

text \<open>\<open>msg.name\<close> of a message that is not \<open>null\<close>.\<close>

definition field_of :: "json \<Rightarrow> string \<Rightarrow> jsval" where
  "field_of msg k = (case get_field msg k of Inl e \<Rightarrow> Undefined | Inr v \<Rightarrow> v)"

subsection \<open>A sample queue\<close>

text \<open>
  Five messages, three queued from \<open>/a\<close> and two from \<open>/b\<close>, the lines
  \<open>JSON.stringify\<close> writes for them, and \<open>JSON.parse\<close> on those lines, on \<open>null\<close> and on
  a line that is not JSON.
\<close>

definition sample_calls :: "enqueue list" where
  "sample_calls =
     [\<lparr>clock = ''t1'', stored_id = None, arg_content = ''one'', arg_peerId = ''u'', arg_cwd = ''/a'', arg_instanceId = None\<rparr>,
      \<lparr>clock = ''t2'', stored_id = None, arg_content = ''two'', arg_peerId = ''u'', arg_cwd = ''/b'', arg_instanceId = None\<rparr>,
      \<lparr>clock = ''t3'', stored_id = None, arg_content = ''three'', arg_peerId = ''u'', arg_cwd = ''/a'', arg_instanceId = None\<rparr>,
      \<lparr>clock = ''t4'', stored_id = None, arg_content = ''four'', arg_peerId = ''u'', arg_cwd = ''/b'', arg_instanceId = None\<rparr>,
      \<lparr>clock = ''t5'', stored_id = None, arg_content = ''five'', arg_peerId = ''u'', arg_cwd = ''/a'', arg_instanceId = None\<rparr>]"

definition sample_line :: "string \<Rightarrow> string \<Rightarrow> string \<Rightarrow> string" where
  \<open>sample_line c d t =
     ''{"content":"'' @ c @ ''","peerId":"u","cwd":"'' @ d @ ''","timestamp":"'' @ t
       @ ''","uploaded":false}''\<close>

definition sample_object :: "string \<Rightarrow> string \<Rightarrow> string \<Rightarrow> json" where
  "sample_object c d t =
     JObj [(''content'', JStr c), (''peerId'', JStr ''u''), (''cwd'', JStr d),
           (''timestamp'', JStr t), (''uploaded'', JBool False)]"

definition sample_table :: "(string \<times> json) list" where
  "sample_table =
     [(sample_line ''one'' ''/a'' ''t1'', sample_object ''one'' ''/a'' ''t1''),
      (sample_line ''two'' ''/b'' ''t2'', sample_object ''two'' ''/b'' ''t2''),
      (sample_line ''three'' ''/a'' ''t3'', sample_object ''three'' ''/a'' ''t3''),
      (sample_line ''four'' ''/b'' ''t4'', sample_object ''four'' ''/b'' ''t4''),
      (sample_line ''five'' ''/a'' ''t5'', sample_object ''five'' ''/a'' ''t5''),
      (''null'', JNull)]"

definition sample_parse :: "string \<Rightarrow> json option" where
  "sample_parse line = map_of sample_table line"

definition sample_stringify :: "json \<Rightarrow> string" where
  "sample_stringify v = (case find (\<lambda>(l, w). w = v) sample_table of None \<Rightarrow> ''{}'' | Some (l, w) \<Rightarrow> l)"

definition broken_queue :: string where
  "broken_queue =
     sample_line ''one'' ''/a'' ''t1'' @ newline @ ''not json'' @ newline
     @ sample_line ''two'' ''/b'' ''t2'' @ newline"

definition good_queue :: string where
  "good_queue =
     sample_line ''one'' ''/a'' ''t1'' @ newline @ sample_line ''two'' ''/b'' ''t2'' @ newline"

subsection \<open>A sample codec\<close>

text \<open>
  A codec for context caches whose sections carry no payload: each of the five fields is
  written as a tally of its number, the fields are joined by commas. It shows that a pair
  of functions inverse to each other, as \<open>JSON.parse\<close> is to \<open>JSON.stringify\<close>, exists.
\<close>

definition tally :: "int option \<Rightarrow> string" where
  "tally n =
     (case n of None \<Rightarrow> ''n''
      | Some k \<Rightarrow> (if k < 0 then CHR ''m'' else CHR ''p'') # replicate (nat \<bar>k\<bar>) (CHR ''1''))"

definition of_tally :: "string \<Rightarrow> int option" where
  "of_tally s =
     (case s of [] \<Rightarrow> None
      | c # r \<Rightarrow> if c = CHR ''n'' then None
                 else if c = CHR ''m'' then Some (- int (length r)) else Some (int (length r)))"

definition stamp :: "unit fetched option \<Rightarrow> int option" where
  "stamp s = map_option fetchedAt s"

definition of_stamp :: "int option \<Rightarrow> unit fetched option" where
  "of_stamp t = map_option (\<lambda>k. \<lparr>data = (), fetchedAt = k\<rparr>) t"

definition sample_encode :: "unit ContextCache \<Rightarrow> string" where
  "sample_encode c =
     join '','' (map tally [stamp (userContext c), stamp (clawdContext c), stamp (summaries c),
                          messageCount c, lastRefreshMessageCount c])"

definition sample_decode :: "string \<Rightarrow> unit ContextCache option" where
  "sample_decode s =
     (case map of_tally (split_on (CHR '','') s) of
        [u, c, m, k, l] \<Rightarrow>
          Some \<lparr>userContext = of_stamp u, clawdContext = of_stamp c, summaries = of_stamp m,
                messageCount = k, lastRefreshMessageCount = l\<rparr>
      | _ \<Rightarrow> None)"

definition sample_id_text :: string where
  \<open>sample_id_text = ''{"claudeInstanceId":"i1"}''\<close>

definition sample_id_doc :: IdCache where
  "sample_id_doc = empty_IdCache\<lparr>claudeInstanceId := Some ''i1''\<rparr>"

definition sample_id_decode :: "string \<Rightarrow> IdCache option" where
  \<comment> \<open>\<open>JSON.parse\<close> on the texts of the sample disks\<close>
  "sample_id_decode s =
     (if s = ''{}'' then Some empty_IdCache
      else if s = sample_id_text then Some sample_id_doc else None)"

definition id_disk :: disk where
  "id_disk = \<lparr>CACHE_DIR = Present, ID_CACHE_FILE = Some sample_id_text, CONTEXT_CACHE_FILE = None\<rparr>"

definition fresh_disk :: disk where
  \<comment> \<open>before the first run: no directory yet, and it can be created\<close>
  "fresh_disk = \<lparr>CACHE_DIR = Absent True, ID_CACHE_FILE = None, CONTEXT_CACHE_FILE = None\<rparr>"

definition locked_disk :: disk where
  \<comment> \<open>no directory, and none can be created; so there is no cache file\<close>
  "locked_disk = \<lparr>CACHE_DIR = Absent False, ID_CACHE_FILE = None, CONTEXT_CACHE_FILE = None\<rparr>"

definition garbled_disk :: disk where
  "garbled_disk =
     \<lparr>CACHE_DIR = Present, ID_CACHE_FILE = Some ''{{not json'',
      CONTEXT_CACHE_FILE = Some ''{{not json''\<rparr>"


definition reset_disk :: disk where
  \<comment> \<open>the fresh disk after \<open>resetMessageCount\<close>\<close>
  "reset_disk =
     \<lparr>CACHE_DIR = Present, ID_CACHE_FILE = None,
      CONTEXT_CACHE_FILE =
        Some (sample_encode
                (empty_ContextCache\<lparr>messageCount := Some 0, lastRefreshMessageCount := Some 0\<rparr>))\<rparr>"

definition default_config :: refresh_config where
  "default_config = \<lparr>ttlSeconds = None, messageThreshold = None\<rparr>"

subsection \<open>Runs of the work log\<close>

definition entry_line :: "string \<Rightarrow> string \<Rightarrow> string" where
  \<comment> \<open>the line that \<open>appendClawdWork\<close> adds, without the line break before it\<close>
  "entry_line now d = ''- ['' @ now @ ''] '' @ d"

fun appends :: "int \<Rightarrow> (string \<times> string) list \<Rightarrow> string option \<Rightarrow> string option" where
  "appends n [] file = file"
| "appends n ((now, d) # es) file = appends n es (appendClawdWork n now d file)"

definition ten_entries :: "(string \<times> string) list" where
  "ten_entries = map (\<lambda>k. (''t'' @ digits k, ''work '' @ digits k)) [0..<10]"

subsection \<open>Views of a context\<close>

text \<open>The context without its dialectic texts, without its session summaries, and cut to
  the budgets of a tier: facts and insights to their numbers, the work log to its length.\<close>

definition without_dialectic :: "FullContext \<Rightarrow> FullContext" where
  "without_dialectic ctx =
     ctx\<lparr>user := (user ctx)\<lparr>user_dialectic := None\<rparr>, ai := (ai ctx)\<lparr>ai_dialectic := None\<rparr>\<rparr>"

definition without_summaries :: "FullContext \<Rightarrow> FullContext" where
  "without_summaries ctx = ctx\<lparr>session := (session ctx)\<lparr>session_context := None\<rparr>\<rparr>"

definition first_facts :: "nat \<Rightarrow> nat \<Rightarrow> UserContext \<Rightarrow> UserContext" where
  "first_facts maxFacts maxInsights c =
     c\<lparr>explicit := map_option (take maxFacts) (explicit c),
       deductive := map_option (take maxInsights) (deductive c)\<rparr>"

definition first_work :: "nat \<Rightarrow> UserContext \<Rightarrow> UserContext" where
  "first_work maxFacts c = c\<lparr>explicit := map_option (take maxFacts) (explicit c)\<rparr>"

definition within_budget :: "budget \<Rightarrow> FullContext \<Rightarrow> FullContext" where
  "within_budget b ctx =
     ctx\<lparr>user := (user ctx)\<lparr>user_context :=
             map_option (first_facts (user_facts b) (user_insights b)) (user_context (user ctx))\<rparr>,
         ai := (ai ctx)\<lparr>ai_context := map_option (first_work (ai_facts b)) (ai_context (ai ctx)),
                        ai_localWork := map_option (take (ai_work b)) (ai_localWork (ai ctx))\<rparr>\<rparr>"

subsection \<open>A sample context\<close>

definition sample_context :: FullContext where
  "sample_context =
     \<lparr>user = \<lparr>user_name = ''eri'',
              user_context = Some \<lparr>peerCard = Some [''p1'', ''p2'', ''p3'', ''p4''],
                                   explicit = None, deductive = None\<rparr>,
              user_dialectic = Some ''prefers short answers''\<rparr>,
      ai = \<lparr>ai_name = ''clawd'', ai_context = None, ai_dialectic = None, ai_localWork = None\<rparr>,
      session = \<lparr>session_name = ''s1'', session_workspace = ''w'', session_cwd = ''/a'',
                 session_context = None\<rparr>,
      git = None, feature = None, changes = None\<rparr>"

definition sample_config :: "ContextTier \<Rightarrow> bool \<Rightarrow> ContextConfig" where
  "sample_config t d =
     \<lparr>tier = t, maxTokens = None, includeDialectic = Some d, compressedFormat = None\<rparr>"

section \<open>Splitting and joining\<close>

lemma split_on_not_Nil: "split_on sep s \<noteq> []"
  by (induction s) (auto split: list.splits)

lemma split_on_free: "sep \<notin> set l \<Longrightarrow> split_on sep l = [l]"
  by (induction l) auto

lemma split_on_append: "sep \<notin> set l \<Longrightarrow> split_on sep (l @ sep # rest) = l # split_on sep rest"
  by (induction l) auto

lemma split_on_pieces: "l \<in> set (split_on sep s) \<Longrightarrow> sep \<notin> set l"
  by (induction s arbitrary: l) (auto split: if_splits list.splits)

lemma split_on_join:
  "xs \<noteq> [] \<Longrightarrow> \<forall>x \<in> set xs. sep \<notin> set x \<Longrightarrow> split_on sep (join [sep] xs) = xs"
  by (induction "[sep]" xs rule: join.induct) (simp_all add: split_on_free split_on_append)

lemma join_append: "xs \<noteq> [] \<Longrightarrow> join sep (xs @ [y]) = join sep xs @ sep @ y"
  by (induction sep xs rule: join.induct) simp_all

lemma join_terminated: "ls \<noteq> [] \<Longrightarrow> join sep ls @ sep = concat (map (\<lambda>l. l @ sep) ls)"
  by (induction sep ls rule: join.induct) auto

lemma split_on_unlines:
  "\<forall>l \<in> set ls. CHR 0x0A \<notin> set l \<Longrightarrow>
   split_on (CHR 0x0A) (concat (map (\<lambda>l. l @ newline) ls) @ rest) = ls @ split_on (CHR 0x0A) rest"
  by (induction ls) (auto simp: newline_def split_on_append)

lemma all_dropWhile: "(\<forall>c \<in> set (dropWhile P s). P c) \<longleftrightarrow> (\<forall>c \<in> set s. P c)"
  by (induction s) auto

lemma trim_Nil_iff: "trim s = [] \<longleftrightarrow> (\<forall>c \<in> set s. is_ws c)"
  unfolding trim_def by (simp add: dropWhile_eq_Nil_conv all_dropWhile)

lemma queue_lines_unlines:
  "\<forall>l \<in> set ls. CHR 0x0A \<notin> set l \<and> trim l \<noteq> [] \<Longrightarrow>
   queue_lines (concat (map (\<lambda>l. l @ newline) ls)) = ls"
  using split_on_unlines[of ls "[]"] by (auto simp: queue_lines_def trim_def filter_id_conv)

lemma queue_lines_props: "l \<in> set (queue_lines txt) \<Longrightarrow> CHR 0x0A \<notin> set l \<and> trim l \<noteq> []"
  by (auto simp: queue_lines_def dest: split_on_pieces)

lemma queue_lines_rewritten:
  "queue_lines (concat (map (\<lambda>l. l @ newline) (filter p (queue_lines txt)))) = filter p (queue_lines txt)"
  by (rule queue_lines_unlines) (auto dest: queue_lines_props)

section \<open>The message queue\<close>

lemma try_map_parse:
  "try_map (\<lambda>line. case parse line of None \<Rightarrow> Inl SyntaxError | Some v \<Rightarrow> Inr v) ls =
     (case those (map parse ls) of None \<Rightarrow> Inl SyntaxError | Some vs \<Rightarrow> Inr vs)"
  by (induction ls) (auto split: option.splits sum.splits)

lemma get_field_field_of: "msg \<noteq> JNull \<Longrightarrow> get_field msg k = Inr (field_of msg k)"
  by (cases msg) (auto simp: field_of_def)

lemma try_filter_field:
  "try_filter (\<lambda>msg. map_sum id f (get_field msg k)) ms =
     (if JNull \<in> set ms then Inl TypeError else Inr (filter (\<lambda>msg. f (field_of msg k)) ms))"
proof (induction ms)
  case Nil
  show ?case by simp
next
  case (Cons m ms)
  show ?case
  proof (cases "m = JNull")
    case True
    then show ?thesis by simp
  next
    case False
    then show ?thesis using Cons by (simp add: get_field_field_of)
  qed
qed

lemma remains_iff:
  "remains parse d l \<longleftrightarrow>
     (\<exists>msg. parse l = Some msg \<and> msg \<noteq> JNull \<and> field_of msg ''cwd'' \<noteq> Val (JStr d))"
proof (cases "parse l")
  case None
  then show ?thesis by (simp add: remains_def)
next
  case (Some msg)
  then show ?thesis by (cases "msg = JNull") (simp_all add: remains_def get_field_field_of)
qed

lemma markMessagesUploaded_text:
  "d \<noteq> [] \<Longrightarrow> markMessagesUploaded parse (Some d) (Some txt) =
     Some (concat (map (\<lambda>l. l @ newline) (filter (remains parse d) (queue_lines txt))))"
  by (simp add: markMessagesUploaded_def Let_def join_terminated)

lemma getQueuedMessages_read:
  "getQueuedMessages parse forCwd (Some txt) =
     (case those (map parse (queue_lines txt)) of
        None \<Rightarrow> []
      | Some msgs \<Rightarrow>
          if JNull \<in> set msgs then []
          else filter (\<lambda>msg. \<not> truthy (field_of msg ''uploaded'') \<and>
                         (given forCwd \<longrightarrow> field_of msg ''cwd'' = Val (JStr (the forCwd)))) msgs)"
  by (auto simp: getQueuedMessages_def read_queue_def try_map_parse try_filter_field
           split: option.splits sum.splits if_splits)

lemma sample_lines:
  "sample_parse ''not json'' = None"
  "sample_parse (sample_line ''one'' ''/a'' ''t1'') = Some (sample_object ''one'' ''/a'' ''t1'')"
  "sample_parse (sample_line ''two'' ''/b'' ''t2'') = Some (sample_object ''two'' ''/b'' ''t2'')"
  by (simp_all add: sample_parse_def sample_table_def sample_line_def)

lemma sample_fields:
  "sample_object c d t \<noteq> JNull"
  "field_of (sample_object c d t) ''cwd'' = Val (JStr d)"
  "field_of (sample_object c d t) ''uploaded'' = Val (JBool False)"
  by (simp_all add: sample_object_def field_of_def)

lemma broken_lines:
  "queue_lines broken_queue
     = [sample_line ''one'' ''/a'' ''t1'', ''not json'', sample_line ''two'' ''/b'' ''t2'']"
  by (simp add: queue_lines_def broken_queue_def newline_def sample_line_def trim_def is_ws_def)

lemma good_lines:
  "queue_lines good_queue = [sample_line ''one'' ''/a'' ''t1'', sample_line ''two'' ''/b'' ''t2'']"
  by (simp add: queue_lines_def good_queue_def newline_def sample_line_def trim_def is_ws_def)

text \<open>
  C1, as the code has it: for a directory \<open>d\<close> that is not empty, \<open>markMessagesUploaded\<close>
  rewrites the queue file, and the lines of the new file are, in their order, the lines of
  the old file that are not blank, that parse, to a value other than \<open>null\<close>, and whose
  \<open>cwd\<close> differs from \<open>d\<close>. A line that fails to parse is removed with the lines of \<open>d\<close>;
  it does not stop the treatment of the other lines.
\<close>

theorem markMessagesUploaded_selective:
  assumes "d \<noteq> []"
  shows "\<exists>txt'. markMessagesUploaded parse (Some d) (Some txt) = Some txt' \<and>
           queue_lines txt' =
             filter (\<lambda>l. \<exists>msg. parse l = Some msg \<and> msg \<noteq> JNull \<and> field_of msg ''cwd'' \<noteq> Val (JStr d))
               (queue_lines txt)"
  using assms by (simp add: markMessagesUploaded_text queue_lines_rewritten remains_iff[abs_def])

text \<open>On the sample queue with a line that is not JSON, only the line of \<open>/b\<close> is left.\<close>

theorem markMessagesUploaded_selective_witness:
  "\<exists>txt'. markMessagesUploaded sample_parse (Some ''/a'') (Some broken_queue) = Some txt' \<and>
          queue_lines txt' = [sample_line ''two'' ''/b'' ''t2'']"
  using markMessagesUploaded_selective[of "''/a''" sample_parse broken_queue]
  by (simp add: broken_lines sample_lines sample_fields)

text \<open>
  C1 as stated fails: the line \<open>not json\<close> does not parse, it is a line of the queue, and
  after \<open>markMessagesUploaded("/a")\<close> the file holds the message of \<open>/b\<close> alone.
\<close>

theorem markMessagesUploaded_drops_unparseable:
  "sample_parse ''not json'' = None \<and> ''not json'' \<in> set (queue_lines broken_queue) \<and>
   markMessagesUploaded sample_parse (Some ''/a'') (Some broken_queue)
     = Some (sample_line ''two'' ''/b'' ''t2'' @ newline)"
  by (simp add: markMessagesUploaded_def broken_lines remains_def sample_lines sample_object_def)

text \<open>
  C2, as the code has it: \<open>getQueuedMessages\<close> parses every line that is not blank. When
  every such line parses, to a value other than \<open>null\<close>, it returns in file order the
  messages whose \<open>uploaded\<close> is not truthy (and whose \<open>cwd\<close> is the given one, when one is
  given); when one line fails, the whole read returns the empty list.
\<close>

theorem getQueuedMessages_all_or_nothing:
  "getQueuedMessages parse forCwd (Some txt) =
     (case those (map parse (queue_lines txt)) of
        None \<Rightarrow> []
      | Some msgs \<Rightarrow>
          if JNull \<in> set msgs then []
          else filter (\<lambda>msg. \<not> truthy (field_of msg ''uploaded'') \<and>
                         (given forCwd \<longrightarrow> field_of msg ''cwd'' = Val (JStr (the forCwd)))) msgs)"
  by (rule getQueuedMessages_read)

text \<open>On the sample queue of two well-formed lines, asked for \<open>/b\<close>.\<close>

theorem getQueuedMessages_all_or_nothing_witness:
  "getQueuedMessages sample_parse (Some ''/b'') (Some good_queue) = [sample_object ''two'' ''/b'' ''t2'']"
  using getQueuedMessages_all_or_nothing[of sample_parse "Some ''/b''" good_queue]
  by (simp add: good_lines sample_lines sample_fields sample_fields(1)[symmetric])

text \<open>
  C2 as stated fails: the sample queue holds two well-formed messages that are not
  uploaded and one line that is not JSON, and the read returns no message at all.
\<close>

theorem getQueuedMessages_fatal_line:
  "sample_parse (sample_line ''one'' ''/a'' ''t1'') = Some (sample_object ''one'' ''/a'' ''t1'') \<and>
   sample_parse (sample_line ''two'' ''/b'' ''t2'') = Some (sample_object ''two'' ''/b'' ''t2'') \<and>
   field_of (sample_object ''one'' ''/a'' ''t1'') ''uploaded'' = Val (JBool False) \<and>
   field_of (sample_object ''two'' ''/b'' ''t2'') ''uploaded'' = Val (JBool False) \<and>
   queue_lines broken_queue
     = [sample_line ''one'' ''/a'' ''t1'', ''not json'', sample_line ''two'' ''/b'' ''t2''] \<and>
   getQueuedMessages sample_parse None (Some broken_queue) = []"
  by (simp add: getQueuedMessages_def read_queue_def broken_lines sample_lines sample_fields)

lemma queue_all_text:
  "queue_all stringify cs (Some old)
     = Some (old @ concat (map (\<lambda>c. stringify (message_json (message_of c)) @ newline) cs))"
  by (induction cs arbitrary: old) (simp_all add: queueMessage_def message_of_def)

lemma queue_all_fresh:
  "file = None \<or> file = Some [] \<Longrightarrow> cs \<noteq> [] \<Longrightarrow>
   queue_all stringify cs file
     = Some (concat (map (\<lambda>c. stringify (message_json (message_of c)) @ newline) cs))"
  by (cases cs) (auto simp: queue_all_text queueMessage_def message_of_def)

lemma message_fields:
  "message_json m \<noteq> JNull"
  "field_of (message_json m) ''cwd'' = Val (JStr (cwd m))"
  "field_of (message_json m) ''uploaded'' = Val (JBool False)"
  by (simp_all add: message_json_def field_of_def)

lemma cwd_message_of: "cwd (message_of c) = arg_cwd c"
  by (simp add: message_of_def make_message_def)

lemma those_map_Some: "\<forall>x \<in> set xs. f x = Some (g x) \<Longrightarrow> those (map f xs) = Some (map g xs)"
  by (induction xs) simp_all

text \<open>The selective delete for any directory \<open>d\<close>: what is pending afterwards are the
  messages queued from the other directories, in the order of their queueing.\<close>

lemma selective_delete_any:
  assumes wf: "\<forall>c \<in> set cs. parse (stringify (message_json (message_of c))) = Some (message_json (message_of c))
                 \<and> CHR 0x0A \<notin> set (stringify (message_json (message_of c)))
                 \<and> trim (stringify (message_json (message_of c))) \<noteq> []"
    and fresh: "file = None \<or> file = Some []"
    and d: "d \<noteq> []"
  shows "getQueuedMessages parse None (markMessagesUploaded parse (Some d) (queue_all stringify cs file))
           = map (\<lambda>c. message_json (message_of c)) (filter (\<lambda>c. arg_cwd c \<noteq> d) cs)"
proof (cases "cs = []")
  case True
  with fresh d show ?thesis
    by (auto simp: markMessagesUploaded_def getQueuedMessages_def read_queue_def queue_lines_def trim_def)
next
  case False
  let ?line = "\<lambda>c. stringify (message_json (message_of c))"
  let ?kept = "filter (\<lambda>c. arg_cwd c \<noteq> d) cs"
  have built: "queue_all stringify cs file = Some (concat (map (\<lambda>l. l @ newline) (map ?line cs)))"
    using queue_all_fresh[OF fresh False] by (simp add: comp_def)
  have lines: "queue_lines (concat (map (\<lambda>l. l @ newline) (map ?line cs))) = map ?line cs"
    by (rule queue_lines_unlines) (use wf in auto)
  have rem: "filter (remains parse d) (map ?line cs) = map ?line ?kept"
    using wf by (induction cs) (auto simp: remains_iff message_fields cwd_message_of)
  have marked: "markMessagesUploaded parse (Some d) (queue_all stringify cs file)
                  = Some (concat (map (\<lambda>l. l @ newline) (map ?line ?kept)))"
    by (simp only: built markMessagesUploaded_text[OF d] lines rem)
  have lines': "queue_lines (concat (map (\<lambda>l. l @ newline) (map ?line ?kept))) = map ?line ?kept"
    by (rule queue_lines_unlines) (use wf in auto)
  have parsed: "those (map parse (map ?line ?kept)) = Some (map (\<lambda>c. message_json (message_of c)) ?kept)"
    unfolding map_map comp_def by (rule those_map_Some) (use wf in auto)
  show ?thesis
    unfolding marked getQueuedMessages_read lines' parsed
    by (auto simp: message_fields message_fields(1)[symmetric] filter_id_conv)
qed

text \<open>
  C3: a queue is built, from no file or an empty one, by \<open>queueMessage\<close> calls for the
  directories \<open>/a\<close> and \<open>/b\<close>, each message well-formed (\<open>JSON.stringify\<close> writes it on one
  line that is not blank, and \<open>JSON.parse\<close> reads that line back). After
  \<open>markMessagesUploaded("/a")\<close>, \<open>getQueuedMessages()\<close> returns exactly the messages of
  \<open>/b\<close>, in the order of their queueing.
\<close>

theorem queue_selective_delete:
  assumes "\<forall>c \<in> set cs. parse (stringify (message_json (message_of c))) = Some (message_json (message_of c))
                 \<and> CHR 0x0A \<notin> set (stringify (message_json (message_of c)))
                 \<and> trim (stringify (message_json (message_of c))) \<noteq> []"
    and "\<forall>c \<in> set cs. arg_cwd c = ''/a'' \<or> arg_cwd c = ''/b''"
    and "file = None \<or> file = Some []"
  shows "getQueuedMessages parse None (markMessagesUploaded parse (Some ''/a'') (queue_all stringify cs file))
           = map (\<lambda>c. message_json (message_of c)) (filter (\<lambda>c. arg_cwd c = ''/b'') cs)"
proof -
  have "filter (\<lambda>c. arg_cwd c \<noteq> ''/a'') cs = filter (\<lambda>c. arg_cwd c = ''/b'') cs"
    using assms(2) by (intro filter_cong) auto
  with selective_delete_any[OF assms(1) assms(3), of "''/a''"] show ?thesis by simp
qed

lemma sample_messages:
  "map (\<lambda>c. message_json (message_of c)) sample_calls =
     [sample_object ''one'' ''/a'' ''t1'', sample_object ''two'' ''/b'' ''t2'',
      sample_object ''three'' ''/a'' ''t3'', sample_object ''four'' ''/b'' ''t4'',
      sample_object ''five'' ''/a'' ''t5'']"
  by (simp add: sample_calls_def message_of_def make_message_def message_json_def sample_object_def)

lemma sample_wire:
  "\<forall>v \<in> set [sample_object ''one'' ''/a'' ''t1'', sample_object ''two'' ''/b'' ''t2'',
      sample_object ''three'' ''/a'' ''t3'', sample_object ''four'' ''/b'' ''t4'',
      sample_object ''five'' ''/a'' ''t5''].
     sample_parse (sample_stringify v) = Some v \<and> CHR 0x0A \<notin> set (sample_stringify v)
       \<and> trim (sample_stringify v) \<noteq> []"
  by (simp add: sample_parse_def sample_stringify_def sample_table_def sample_object_def
        sample_line_def trim_def is_ws_def)

text \<open>Three messages queued from \<open>/a\<close> and two from \<open>/b\<close>: the two of \<open>/b\<close> are pending.\<close>

theorem queue_selective_delete_witness:
  "getQueuedMessages sample_parse None
     (markMessagesUploaded sample_parse (Some ''/a'') (queue_all sample_stringify sample_calls None))
   = [sample_object ''two'' ''/b'' ''t2'', sample_object ''four'' ''/b'' ''t4'']"
proof -
  have wf: "\<forall>c \<in> set sample_calls.
              sample_parse (sample_stringify (message_json (message_of c))) = Some (message_json (message_of c))
              \<and> CHR 0x0A \<notin> set (sample_stringify (message_json (message_of c)))
              \<and> trim (sample_stringify (message_json (message_of c))) \<noteq> []"
    using sample_wire sample_messages by (metis (no_types, lifting) image_eqI list.set_map)
  have dirs: "\<forall>c \<in> set sample_calls. arg_cwd c = ''/a'' \<or> arg_cwd c = ''/b''"
    by (simp add: sample_calls_def)
  have "map (\<lambda>c. message_json (message_of c)) (filter (\<lambda>c. arg_cwd c = ''/b'') sample_calls)
          = [sample_object ''two'' ''/b'' ''t2'', sample_object ''four'' ''/b'' ''t4'']"
    by (simp add: sample_calls_def message_of_def make_message_def message_json_def sample_object_def)
  with queue_selective_delete[OF wf dirs, of None] show ?thesis by simp
qed

section \<open>The caches\<close>

lemma ensureCacheDir_usable: "d \<noteq> Absent False \<Longrightarrow> ensureCacheDir d = Inr Present"
  by (cases d) (auto simp: ensureCacheDir_def)

lemma ensureCacheDir_locked: "ensureCacheDir (Absent False) = Inl IOError"
  by (simp add: ensureCacheDir_def)

lemma sample_id_texts:
  "sample_id_decode ''{{not json'' = None"
  "sample_id_decode sample_id_text = Some sample_id_doc"
  by (simp_all add: sample_id_decode_def sample_id_text_def)

lemma sample_garbled: "sample_decode ''{{not json'' = None"
  by (simp add: sample_decode_def of_tally_def)

text \<open>
  C9, as the code has it. On a disk whose cache directory exists or can be created, no load
  fails: with no file, and with a file whose text \<open>JSON.parse\<close> rejects, \<open>loadIdCache\<close> and
  \<open>loadContextCache\<close> return the empty document, and they return the document of a file
  that parses. Where the directory is absent and cannot be created, the error of
  \<open>mkdirSync\<close> leaves the load.
\<close>

theorem load_fails_only_without_directory:
  "(CACHE_DIR dsk \<noteq> Absent False \<longrightarrow>
      (ID_CACHE_FILE dsk = None \<or> (\<exists>txt. ID_CACHE_FILE dsk = Some txt \<and> idecode txt = None) \<longrightarrow>
         loadIdCache idecode dsk = Inr (empty_IdCache, dsk\<lparr>CACHE_DIR := Present\<rparr>)) \<and>
      (\<forall>txt doc. ID_CACHE_FILE dsk = Some txt \<and> idecode txt = Some doc \<longrightarrow>
         loadIdCache idecode dsk = Inr (doc, dsk\<lparr>CACHE_DIR := Present\<rparr>)) \<and>
      (CONTEXT_CACHE_FILE dsk = None \<or> (\<exists>txt. CONTEXT_CACHE_FILE dsk = Some txt \<and> decode txt = None) \<longrightarrow>
         loadContextCache decode dsk = Inr (empty_ContextCache, dsk\<lparr>CACHE_DIR := Present\<rparr>)) \<and>
      (\<forall>txt doc. CONTEXT_CACHE_FILE dsk = Some txt \<and> decode txt = Some doc \<longrightarrow>
         loadContextCache decode dsk = Inr (doc, dsk\<lparr>CACHE_DIR := Present\<rparr>))) \<and>
   (CACHE_DIR dsk = Absent False \<longrightarrow>
      loadIdCache idecode dsk = Inl IOError \<and> loadContextCache decode dsk = Inl IOError)"
proof (cases "CACHE_DIR dsk = Absent False")
  case True
  then show ?thesis
    by (simp add: loadIdCache_def loadContextCache_def ensureCacheDir_locked)
next
  case False
  then show ?thesis
    by (auto simp: loadIdCache_def loadContextCache_def ensureCacheDir_usable read_document_def)
qed

text \<open>On the fresh disk the directory is created and both documents are empty; two files
  that are not JSON give the empty documents; a file that parses gives its document; on
  the disk whose directory cannot be created the loads fail.\<close>

theorem load_fails_only_without_directory_witness:
  "loadIdCache sample_id_decode fresh_disk = Inr (empty_IdCache, fresh_disk\<lparr>CACHE_DIR := Present\<rparr>) \<and>
   loadContextCache sample_decode fresh_disk
     = Inr (empty_ContextCache, fresh_disk\<lparr>CACHE_DIR := Present\<rparr>) \<and>
   loadIdCache sample_id_decode garbled_disk = Inr (empty_IdCache, garbled_disk) \<and>
   loadContextCache sample_decode garbled_disk = Inr (empty_ContextCache, garbled_disk) \<and>
   loadIdCache sample_id_decode id_disk = Inr (sample_id_doc, id_disk) \<and>
   loadIdCache sample_id_decode locked_disk = Inl IOError"
  using load_fails_only_without_directory[of fresh_disk sample_id_decode sample_decode]
        load_fails_only_without_directory[of garbled_disk sample_id_decode sample_decode]
        load_fails_only_without_directory[of id_disk sample_id_decode sample_decode]
        load_fails_only_without_directory[of locked_disk sample_id_decode sample_decode]
  by (simp add: fresh_disk_def garbled_disk_def id_disk_def locked_disk_def sample_id_texts
        sample_garbled)

text \<open>
  C9 as stated fails: on the disk without a cache directory, where none can be created,
  both cache files are missing and both loads end in the error of \<open>mkdirSync\<close>.
\<close>

theorem load_fails_without_directory:
  "ID_CACHE_FILE locked_disk = None \<and> CONTEXT_CACHE_FILE locked_disk = None \<and>
   loadIdCache sample_id_decode locked_disk = Inl IOError \<and>
   loadContextCache sample_decode locked_disk = Inl IOError"
  by (simp add: locked_disk_def loadIdCache_def loadContextCache_def ensureCacheDir_def)

lemma load_Present:
  "CACHE_DIR dsk = Present \<Longrightarrow> CONTEXT_CACHE_FILE dsk = Some (encode c) \<Longrightarrow>
   (\<And>c. decode (encode c) = Some c) \<Longrightarrow> loadContextCache decode dsk = Inr (c, dsk)"
  by (simp add: loadContextCache_def ensureCacheDir_def read_document_def)

lemma save_Present:
  "CACHE_DIR dsk = Present \<Longrightarrow>
   saveContextCache encode c dsk = Inr (dsk\<lparr>CONTEXT_CACHE_FILE := Some (encode c)\<rparr>)"
  by (simp add: saveContextCache_def ensureCacheDir_def)

lemma load_makes_Present:
  "loadContextCache decode dsk = Inr (c, dsk') \<Longrightarrow> CACHE_DIR dsk' = Present"
  by (cases "CACHE_DIR dsk = Absent False")
     (auto simp: loadContextCache_def ensureCacheDir_usable ensureCacheDir_locked)

lemma of_tally_tally: "of_tally (tally n) = n"
  by (cases n) (auto simp: tally_def of_tally_def)

lemma tally_free: "CHR '','' \<notin> set (tally n)"
  by (cases n) (auto simp: tally_def)

lemma of_stamp_stamp: "of_stamp (stamp s) = s"
  by (cases s) (simp_all add: stamp_def of_stamp_def)

lemma sample_codec: "sample_decode (sample_encode c) = Some c"
proof -
  let ?fields = "[stamp (userContext c), stamp (clawdContext c), stamp (summaries c),
                  messageCount c, lastRefreshMessageCount c]"
  have "split_on (CHR '','') (join '','' (map tally ?fields)) = map tally ?fields"
    by (rule split_on_join) (auto simp: tally_free)
  then show ?thesis
    by (simp add: sample_decode_def sample_encode_def of_tally_tally of_stamp_stamp)
qed


text \<open>The section stored by \<open>setCachedUserContext\<close> at \<open>t0\<close> is served at \<open>t1\<close> exactly while
  \<open>t1 - t0\<close> is below the TTL.\<close>

lemma ttl_after_set:
  assumes rt: "\<And>c. decode (encode c) = Some c"
    and set: "setCachedUserContext decode encode t0 x dsk = Inr dsk'"
  shows "getCachedUserContext decode config t1 dsk'
           = Inr (if t1 - t0 < getContextTTL config then Some x else None)"
proof -
  from set obtain c d where l: "loadContextCache decode dsk = Inr (c, d)"
    by (auto simp: setCachedUserContext_def split: sum.splits)
  have d: "CACHE_DIR d = Present" by (rule load_makes_Present[OF l])
  let ?c = "c\<lparr>userContext := Some \<lparr>data = x, fetchedAt = t0\<rparr>\<rparr>"
  from set l have dsk': "dsk' = d\<lparr>CONTEXT_CACHE_FILE := Some (encode ?c)\<rparr>"
    by (simp add: setCachedUserContext_def save_Present[OF d])
  have "loadContextCache decode dsk' = Inr (?c, dsk')"
    by (rule load_Present[where encode = encode]) (simp_all add: dsk' d rt)
  then show ?thesis by (simp add: getCachedUserContext_def)
qed




lemma reset_result:
  assumes rt: "\<And>c. decode (encode c) = Some c"
    and r: "resetMessageCount decode encode dsk = Inr dsk0"
  shows "\<exists>c. CACHE_DIR dsk0 = Present \<and> CONTEXT_CACHE_FILE dsk0 = Some (encode c) \<and>
             messageCount c = Some 0 \<and> lastRefreshMessageCount c = Some 0"
proof -
  from r obtain c d where l: "loadContextCache decode dsk = Inr (c, d)"
    by (auto simp: resetMessageCount_def split: sum.splits)
  have d: "CACHE_DIR d = Present" by (rule load_makes_Present[OF l])
  let ?c = "c\<lparr>messageCount := Some 0, lastRefreshMessageCount := Some 0\<rparr>"
  from r l have "dsk0 = d\<lparr>CONTEXT_CACHE_FILE := Some (encode ?c)\<rparr>"
    by (simp add: resetMessageCount_def save_Present[OF d])
  with d show ?thesis by (intro exI[of _ ?c]) simp
qed

lemma increment_step:
  assumes rt: "\<And>c. decode (encode c) = Some c"
    and "CACHE_DIR dsk = Present" "CONTEXT_CACHE_FILE dsk = Some (encode c)"
    and "messageCount c = Some n"
  shows "incrementMessageCount decode encode dsk
           = Inr (n + 1, dsk\<lparr>CONTEXT_CACHE_FILE := Some (encode (c\<lparr>messageCount := Some (n + 1)\<rparr>))\<rparr>)"
  using assms(2-)
  by (simp add: incrementMessageCount_def load_Present[OF assms(2,3) rt] save_Present Let_def
        or_zero_def)

lemma increments_counts:
  assumes rt: "\<And>c. decode (encode c) = Some c"
  shows "CACHE_DIR dsk = Present \<Longrightarrow> CONTEXT_CACHE_FILE dsk = Some (encode c) \<Longrightarrow>
         messageCount c = Some n \<Longrightarrow>
         increments decode encode k dsk
           = Inr (dsk\<lparr>CONTEXT_CACHE_FILE := Some (encode (c\<lparr>messageCount := Some (n + int k)\<rparr>))\<rparr>)"
proof (induction k arbitrary: dsk c n)
  case 0
  have "c\<lparr>messageCount := Some (n + int 0)\<rparr> = c"
    using "0.prems"(3) by (cases c) simp
  moreover have "dsk\<lparr>CONTEXT_CACHE_FILE := CONTEXT_CACHE_FILE dsk\<rparr> = dsk"
    by simp
  ultimately have "dsk\<lparr>CONTEXT_CACHE_FILE := Some (encode (c\<lparr>messageCount := Some (n + int 0)\<rparr>))\<rparr> = dsk"
    using "0.prems"(2) by metis
  then show ?case by (simp only: increments.simps)
next
  case (Suc k)
  let ?c = "c\<lparr>messageCount := Some (n + 1)\<rparr>"
  let ?d = "dsk\<lparr>CONTEXT_CACHE_FILE := Some (encode ?c)\<rparr>"
  have step: "incrementMessageCount decode encode dsk = Inr (n + 1, ?d)"
    by (rule increment_step[OF rt Suc.prems])
  have "increments decode encode k ?d
          = Inr (?d\<lparr>CONTEXT_CACHE_FILE := Some (encode (?c\<lparr>messageCount := Some (n + 1 + int k)\<rparr>))\<rparr>)"
    by (rule Suc.IH) (simp_all add: Suc.prems)
  then show ?case by (simp add: step ac_simps)
qed

text \<open>
  C5: when what is saved is read back as it was, after \<open>resetMessageCount\<close> the \<open>k\<close> calls
  of \<open>incrementMessageCount\<close> return, and then \<open>shouldRefreshKnowledgeGraph\<close> is true
  exactly when \<open>k\<close> has reached the threshold.
\<close>

theorem threshold_trigger:
  assumes rt: "\<And>c. decode (encode c) = Some c"
    and reset: "resetMessageCount decode encode dsk = Inr dsk0"
  shows "\<exists>dsk'. increments decode encode k dsk0 = Inr dsk' \<and>
           shouldRefreshKnowledgeGraph decode config dsk'
             = Inr (int k \<ge> getMessageRefreshThreshold config)"
proof -
  from reset_result[OF rt reset] obtain c where
    c: "CACHE_DIR dsk0 = Present" "CONTEXT_CACHE_FILE dsk0 = Some (encode c)"
       "messageCount c = Some 0" "lastRefreshMessageCount c = Some 0"
    by blast
  let ?c = "c\<lparr>messageCount := Some (0 + int k)\<rparr>"
  let ?d = "dsk0\<lparr>CONTEXT_CACHE_FILE := Some (encode ?c)\<rparr>"
  have run: "increments decode encode k dsk0 = Inr ?d"
    by (rule increments_counts[OF rt c(1-3)])
  have "loadContextCache decode ?d = Inr (?c, ?d)"
    by (rule load_Present[where encode = encode]) (simp_all add: c rt)
  then have "shouldRefreshKnowledgeGraph decode config ?d
               = Inr (int k \<ge> getMessageRefreshThreshold config)"
    by (simp add: shouldRefreshKnowledgeGraph_def Let_def or_zero_def c)
  with run show ?thesis by blast
qed

lemma sample_reset:
  "resetMessageCount sample_decode sample_encode fresh_disk = Inr reset_disk"
  by (simp add: resetMessageCount_def loadContextCache_def saveContextCache_def
        ensureCacheDir_def fresh_disk_def reset_disk_def)

text \<open>With the default threshold of 50, on the fresh disk: true after 50 increments, false
  after 49.\<close>

theorem threshold_trigger_witness:
  "resetMessageCount sample_decode sample_encode fresh_disk = Inr reset_disk \<and>
   (\<exists>dsk'. increments sample_decode sample_encode 50 reset_disk = Inr dsk' \<and>
           shouldRefreshKnowledgeGraph sample_decode default_config dsk' = Inr True) \<and>
   (\<exists>dsk'. increments sample_decode sample_encode 49 reset_disk = Inr dsk' \<and>
           shouldRefreshKnowledgeGraph sample_decode default_config dsk' = Inr False)"
  using threshold_trigger[of sample_decode sample_encode fresh_disk reset_disk 50 default_config,
          OF sample_codec sample_reset]
        threshold_trigger[of sample_decode sample_encode fresh_disk reset_disk 49 default_config,
          OF sample_codec sample_reset]
  by (simp add: getMessageRefreshThreshold_def default_config_def sample_reset)

section \<open>The work log\<close>

lemma findIndex_Some: "findIndex p xs = Some i \<Longrightarrow> i < length xs"
  by (induction xs arbitrary: i) (auto split: if_splits)

lemma findIndex_append: "findIndex p xs = Some i \<Longrightarrow> findIndex p (xs @ ys) = Some i"
  by (induction xs arbitrary: i) (auto split: if_splits)

lemma findIndex_take: "findIndex p xs = Some i \<Longrightarrow> findIndex p (take (Suc i) xs) = Some i"
  by (induction xs arbitrary: i) (auto split: if_splits)

lemma entry_not_blank: "trim (entry_line now d) \<noteq> []"
  by (auto simp: trim_Nil_iff entry_line_def is_ws_def)

text \<open>
  One append to a log that has the header: the lines up to the header stay as they are,
  and the entries afterwards are \<open>slice(-(maxEntries - 1))\<close> of the entries before,
  followed by the new entry.
\<close>

lemma append_entries:
  assumes nl: "CHR 0x0A \<notin> set now" "CHR 0x0A \<notin> set d"
    and found: "findIndex (\<lambda>l. str_includes l activity_header) (split_on (CHR 0x0A) txt) = Some i"
    and ne: "txt \<noteq> []"
  shows "\<exists>txt'. appendClawdWork n now d (Some txt) = Some txt' \<and>
           activity_entries txt' = slice_from (- (n - 1)) (activity_entries txt) @ [entry_line now d] \<and>
           take (Suc i) (split_on (CHR 0x0A) txt') = take (Suc i) (split_on (CHR 0x0A) txt)"
proof -
  let ?lines = "split_on (CHR 0x0A) txt"
  let ?header = "take (Suc i) ?lines"
  let ?recent = "slice_from (- (n - 1)) (filter (\<lambda>l. trim l \<noteq> []) (drop (Suc i) ?lines))"
  let ?txt' = "join newline (?header @ ?recent) @ newline @ entry_line now d"
  from findIndex_Some[OF found] have i: "i < length ?lines" .
  have app: "appendClawdWork n now d (Some txt) = Some ?txt'"
    using found ne
    by (simp add: appendClawdWork_def loadClawdLocalContext_def saveClawdLocalContext_def
          entry_line_def Let_def)
  have recent_sub: "set ?recent \<subseteq> set (filter (\<lambda>l. trim l \<noteq> []) (drop (Suc i) ?lines))"
    by (auto simp: slice_from_def dest: in_set_dropD)
  have free: "\<forall>l \<in> set (?header @ ?recent @ [entry_line now d]). CHR 0x0A \<notin> set l"
    using recent_sub nl
    by (auto simp: entry_line_def dest!: in_set_takeD in_set_dropD split_on_pieces subsetD)
  have hne: "?header @ ?recent \<noteq> []" using i by (cases ?lines) auto
  have "?txt' = join newline ((?header @ ?recent) @ [entry_line now d])"
    using join_append[OF hne] by simp
  then have lines': "split_on (CHR 0x0A) ?txt' = ?header @ ?recent @ [entry_line now d]"
    using split_on_join[of "?header @ ?recent @ [entry_line now d]" "CHR 0x0A"] free
    by (simp add: newline_def)
  have idx: "findIndex (\<lambda>l. str_includes l activity_header) (?header @ ?recent @ [entry_line now d]) = Some i"
    by (rule findIndex_append) (rule findIndex_take[OF found])
  have len: "length ?header = Suc i" using i by simp
  have keep: "filter (\<lambda>l. trim l \<noteq> []) (?recent @ [entry_line now d]) = ?recent @ [entry_line now d]"
    using recent_sub by (auto simp: filter_id_conv entry_not_blank)
  have "activity_entries ?txt' = ?recent @ [entry_line now d]"
    unfolding activity_entries_def Let_def lines' idx using len keep by simp
  moreover have "activity_entries txt = filter (\<lambda>l. trim l \<noteq> []) (drop (Suc i) ?lines)"
    by (simp add: activity_entries_def found)
  moreover have "take (Suc i) (split_on (CHR 0x0A) ?txt') = ?header"
    unfolding lines' using len by simp
  ultimately show ?thesis using app by simp
qed

text \<open>From two entries on, the bound holds: at most \<open>maxEntries\<close> entries after an append.\<close>

lemma append_bounded:
  assumes "CHR 0x0A \<notin> set now" "CHR 0x0A \<notin> set d"
    and "findIndex (\<lambda>l. str_includes l activity_header) (split_on (CHR 0x0A) txt) = Some i"
    and "txt \<noteq> []" and "2 \<le> n"
  shows "int (length (activity_entries (the (appendClawdWork n now d (Some txt))))) \<le> n"
proof -
  from append_entries[OF assms(1-4), of n] obtain txt' where
    "appendClawdWork n now d (Some txt) = Some txt'"
    "activity_entries txt' = slice_from (- (n - 1)) (activity_entries txt) @ [entry_line now d]"
    by blast
  with assms(5) show ?thesis by (simp add: slice_from_def)
qed

text \<open>With \<open>maxEntries = 1\<close> nothing is dropped: \<open>slice(-0)\<close> is the whole array.\<close>

lemma append_one_grows:
  assumes "CHR 0x0A \<notin> set now" "CHR 0x0A \<notin> set d"
    and "findIndex (\<lambda>l. str_includes l activity_header) (split_on (CHR 0x0A) txt) = Some i"
    and "txt \<noteq> []"
  shows "activity_entries (the (appendClawdWork 1 now d (Some txt)))
           = activity_entries txt @ [entry_line now d]"
proof -
  from append_entries[OF assms, of 1] obtain txt' where
    "appendClawdWork 1 now d (Some txt) = Some txt'"
    "activity_entries txt' = slice_from (- (1 - 1)) (activity_entries txt) @ [entry_line now d]"
    by blast
  then show ?thesis by (simp add: slice_from_def)
qed

text \<open>Ten appends on a fresh log with \<open>maxEntries = 5\<close> leave the last five, oldest first.\<close>

lemma ten_appends_keep_five:
  "activity_entries (the (appends 5 ten_entries None))
     = [''- [t5] work 5'', ''- [t6] work 6'', ''- [t7] work 7'', ''- [t8] work 8'', ''- [t9] work 9'']"
  by code_simp

text \<open>
  C7 at \<open>maxEntries = 1\<close>: the claim allows one entry after an append. The code keeps
  every earlier entry: three appends on a fresh log leave three entries, and one append to
  a log of two entries leaves three.
\<close>

theorem appendClawdWork_one_keeps_all:
  "activity_entries (the (appends 1 [(''t1'', ''a''), (''t2'', ''b''), (''t3'', ''c'')] None))
     = [''- [t1] a'', ''- [t2] b'', ''- [t3] c''] \<and>
   appendClawdWork 1 ''t3'' ''c''
     (Some (''## Recent Activity'' @ newline @ ''- [t1] a'' @ newline @ ''- [t2] b''))
     = Some (''## Recent Activity'' @ newline @ ''- [t1] a'' @ newline @ ''- [t2] b'' @ newline
             @ ''- [t3] c'')"
  by code_simp

section \<open>Token estimate and deduplication\<close>

lemma estimateTokens_div: "estimateTokens txt = (int (length txt) + 3) div 4"
  unfolding estimateTokens_def by linarith

lemma truncate_whole:
  "truncateToTokens txt (rat_of_int k) =
     (if int (length txt) \<le> k * 4 then txt else slice_to (k * 4 - 3) txt @ ''...'')"
proof -
  have cmp: "rat_of_nat (length txt) \<le> rat_of_int k * 4 \<longleftrightarrow> int (length txt) \<le> k * 4"
  proof -
    have "rat_of_nat (length txt) = rat_of_int (int (length txt))" by simp
    moreover have "rat_of_int k * 4 = rat_of_int (k * 4)" by simp
    ultimately show ?thesis by (simp only: of_int_le_iff)
  qed
  have "rat_of_int k * 4 - 3 = rat_of_int (k * 4 - 3)" by simp
  then have cut: "to_integer (rat_of_int k * 4 - 3) = k * 4 - 3"
    by (simp only: to_integer_def of_int_less_0_iff floor_of_int ceiling_of_int if_cancel)
  show ?thesis
    by (simp only: truncateToTokens_def Let_def cmp cut)
qed

text \<open>
  C10, as the code has it: for a budget that is a whole number of tokens, at least one,
  the truncated text is estimated within the budget, and the text is returned unchanged
  exactly when its own estimate is within the budget.
\<close>

theorem truncate_within_budget:
  assumes "limit \<in> \<int>" and "1 \<le> limit"
  shows "rat_of_int (estimateTokens (truncateToTokens txt limit)) \<le> limit \<and>
         (truncateToTokens txt limit = txt \<longleftrightarrow> rat_of_int (estimateTokens txt) \<le> limit)"
proof -
  from assms(1) obtain k where k: "limit = rat_of_int k" by (auto elim: Ints_cases)
  with assms(2) have k1: "1 \<le> k" by simp
  have goal: "estimateTokens (truncateToTokens txt (rat_of_int k)) \<le> k \<and>
         (truncateToTokens txt (rat_of_int k) = txt \<longleftrightarrow> estimateTokens txt \<le> k)"
  proof (cases "int (length txt) \<le> k * 4")
    case True
    then show ?thesis by (simp add: truncate_whole estimateTokens_div)
  next
    case False
    have len: "length (truncateToTokens txt (rat_of_int k)) = nat (k * 4)"
      using False k1 by (simp add: truncate_whole slice_to_def)
    have "truncateToTokens txt (rat_of_int k) \<noteq> txt"
    proof
      assume "truncateToTokens txt (rat_of_int k) = txt"
      with len have "int (length txt) = k * 4" using k1 by simp
      with False show False by simp
    qed
    with len False k1 show ?thesis by (simp add: estimateTokens_div)
  qed
  then show ?thesis unfolding k by (simp only: of_int_le_iff)
qed

text \<open>Ten characters under a budget of two tokens: five characters and the ellipsis.\<close>

theorem truncate_within_budget_witness:
  "truncateToTokens ''abcdefghij'' 2 = ''abcde...'' \<and>
   rat_of_int (estimateTokens (truncateToTokens ''abcdefghij'' 2)) \<le> 2 \<and>
   \<not> rat_of_int (estimateTokens ''abcdefghij'') \<le> 2"
  using truncate_within_budget[of 2 "''abcdefghij''"] truncate_whole[of "''abcdefghij''" 2]
  by (simp add: slice_to_def)

text \<open>
  C10 as stated fails at a budget of one token and a half: a text of seven characters is
  cut to six, which are estimated at two tokens, and a text of six characters is returned
  unchanged although its estimate is two tokens.
\<close>

theorem truncate_exceeds_fractional_budget:
  "(1 :: rat) \<le> 3 / 2 \<and>
   truncateToTokens ''abcdefg'' (3 / 2) = ''abc...'' \<and>
   \<not> rat_of_int (estimateTokens (truncateToTokens ''abcdefg'' (3 / 2))) \<le> 3 / 2 \<and>
   truncateToTokens ''abcdef'' (3 / 2) = ''abcdef'' \<and>
   \<not> rat_of_int (estimateTokens ''abcdef'') \<le> 3 / 2"
  by (simp add: truncateToTokens_def to_integer_def slice_to_def estimateTokens_div)







section \<open>The two renderings of a context\<close>

lemma budgets_positive:
  "0 < user_facts (TIER_BUDGETS t)" "0 < user_insights (TIER_BUDGETS t)"
  "0 < ai_facts (TIER_BUDGETS t)" "0 < ai_work (TIER_BUDGETS t)"
  by (cases t; simp)+

lemma when_items_take:
  "0 < n \<Longrightarrow> (\<And>ys. body (take n ys) = body ys) \<Longrightarrow>
   when_items (map_option (take n) xs) body = when_items xs body"
  by (cases xs) (auto simp: when_items_def)

lemma when_text_take:
  "0 < n \<Longrightarrow> (\<And>t. body (take n t) = body t) \<Longrightarrow>
   when_text (map_option (take n) s) body = when_text s body"
  by (cases s) (auto simp: when_text_def)

lemma when_text_None: "when_text None body = []"
  by (simp add: when_text_def)

lemma compact_user_budget:
  "0 < n \<Longrightarrow> 0 < m \<Longrightarrow>
   buildCompactUserFacts (map_option (first_facts n m) c) n m = buildCompactUserFacts c n m"
  by (cases c) (simp_all add: buildCompactUserFacts_def first_facts_def when_items_take)

lemma verbose_user_budget:
  "0 < n \<Longrightarrow> 0 < m \<Longrightarrow>
   buildVerboseUserContext name (map_option (first_facts n m) c) dia n m
     = buildVerboseUserContext name c dia n m"
  by (cases c) (simp_all add: buildVerboseUserContext_def first_facts_def when_items_take)

lemma compact_ai_budget:
  "0 < n \<Longrightarrow> 0 < k \<Longrightarrow>
   buildCompactAIWork (map_option (first_work n) c) (map_option (take k) w) n k
     = buildCompactAIWork c w n k"
  by (cases c) (simp_all add: buildCompactAIWork_def first_work_def when_items_take when_text_take)

lemma verbose_ai_budget:
  "0 < n \<Longrightarrow> 0 < k \<Longrightarrow>
   buildVerboseAIContext name (map_option (first_work n) c) dia (map_option (take k) w) n k
     = buildVerboseAIContext name c dia w n k"
  by (cases c) (simp_all add: buildVerboseAIContext_def first_work_def when_items_take when_text_take)

lemma compressed_budget:
  "compressed_sections (within_budget (TIER_BUDGETS (tier config)) ctx) config
     = compressed_sections ctx config"
  by (simp add: compressed_sections_def within_budget_def buildCompactHeader_def Let_def
        compact_user_budget compact_ai_budget budgets_positive)

lemma verbose_budget:
  "verbose_sections (within_budget (TIER_BUDGETS (tier config)) ctx) config
     = verbose_sections ctx config"
  by (simp add: verbose_sections_def within_budget_def buildVerboseHeader_def Let_def
        verbose_user_budget verbose_ai_budget budgets_positive)

lemma compressed_dialectic:
  "\<not> (tier config = Deep \<and> flag (includeDialectic config)) \<Longrightarrow>
   compressed_sections (without_dialectic ctx) config = compressed_sections ctx config"
  by (auto simp: compressed_sections_def without_dialectic_def buildCompactHeader_def Let_def)

lemma verbose_dialectic:
  "\<not> flag (includeDialectic config) \<Longrightarrow>
   verbose_sections (without_dialectic ctx) config = verbose_sections ctx config"
  by (simp add: verbose_sections_def without_dialectic_def buildVerboseHeader_def Let_def)

lemma compressed_summaries:
  "tier config = Essential \<Longrightarrow>
   compressed_sections (without_summaries ctx) config = compressed_sections ctx config"
  by (simp add: compressed_sections_def without_summaries_def buildCompactHeader_def Let_def)

lemma verbose_summaries:
  "tier config = Essential \<Longrightarrow>
   verbose_sections (without_summaries ctx) config = verbose_sections ctx config"
  by (simp add: verbose_sections_def without_summaries_def buildVerboseHeader_def Let_def)

text \<open>
  C6, as the code has it. Both renderings read the numbers of user facts, of user insights
  and of agent facts and the length of the agent's work log from the budget table of the
  tier: what lies beyond these budgets changes neither output. Both leave the session
  summaries out at the essential tier. In both, dialectic text is included only if it is
  asked for, and in the compressed rendering only at the deep tier.
\<close>

theorem renderings_share_budgets:
  "formatCompressedContext (within_budget (TIER_BUDGETS (tier config)) ctx) config
     = formatCompressedContext ctx config \<and>
   formatVerboseContext (within_budget (TIER_BUDGETS (tier config)) ctx) config
     = formatVerboseContext ctx config \<and>
   (tier config = Essential \<longrightarrow>
      formatCompressedContext (without_summaries ctx) config = formatCompressedContext ctx config \<and>
      formatVerboseContext (without_summaries ctx) config = formatVerboseContext ctx config) \<and>
   (\<not> flag (includeDialectic config) \<longrightarrow>
      formatCompressedContext (without_dialectic ctx) config = formatCompressedContext ctx config \<and>
      formatVerboseContext (without_dialectic ctx) config = formatVerboseContext ctx config) \<and>
   (tier config \<noteq> Deep \<longrightarrow>
      formatCompressedContext (without_dialectic ctx) config = formatCompressedContext ctx config)"
  by (simp add: formatCompressedContext_def formatVerboseContext_def compressed_budget
        verbose_budget compressed_summaries verbose_summaries compressed_dialectic
        verbose_dialectic)

lemma sample_compressed:
  "compressed_sections sample_context (sample_config Essential True)
     = [''[honcho-memory]'', ''user=eri | ai=clawd | ws=w | session=s1'', ''[eri]'',
        ''profile: p1; p2; p3'', ''[clawd]'', ''[end-memory]'']"
  by (simp add: compressed_sections_def sample_context_def sample_config_def
        buildCompactHeader_def buildCompactUserFacts_def buildCompactAIWork_def when_items_def
        when_text_def flag_def)

lemma sample_verbose:
  "verbose_sections sample_context (sample_config Essential True)
     = [''## Session Context'', ''- User: eri'', ''- AI: clawd'', ''- Workspace: w'',
        ''- Session: s1'', ''- Directory: /a'', ''## '' @ possessive ''eri'' @ '' Profile'',
        ''- p1'', ''- p2'', ''- p3'', ''- p4'', ''## AI Summary of eri'', ''prefers short answers'']"
  by (simp add: verbose_sections_def sample_context_def sample_config_def
        buildVerboseHeader_def buildVerboseUserContext_def buildVerboseAIContext_def
        when_items_def when_text_def flag_def)

text \<open>On the sample context: at the essential tier and at the extended tier with dialectic
  asked for, and at the deep tier without it, the renderings are those of the context
  without its dialectic text or its summaries.\<close>

theorem renderings_share_budgets_witness:
  "formatCompressedContext (without_summaries sample_context) (sample_config Essential True)
     = formatCompressedContext sample_context (sample_config Essential True) \<and>
   formatVerboseContext (without_dialectic sample_context) (sample_config Deep False)
     = formatVerboseContext sample_context (sample_config Deep False) \<and>
   formatCompressedContext (without_dialectic sample_context) (sample_config Extended True)
     = formatCompressedContext sample_context (sample_config Extended True)"
  using renderings_share_budgets[of "sample_config Essential True" sample_context]
        renderings_share_budgets[of "sample_config Deep False" sample_context]
        renderings_share_budgets[of "sample_config Extended True" sample_context]
  by (simp add: sample_config_def flag_def)

text \<open>
  C6 as stated fails. On the sample context, at the essential tier with dialectic asked
  for, the verbose rendering has the fourth profile line and the dialectic text, and the
  compressed rendering has neither.
\<close>

theorem renderings_select_differently:
  "compressed_sections sample_context (sample_config Essential True)
     = [''[honcho-memory]'', ''user=eri | ai=clawd | ws=w | session=s1'', ''[eri]'',
        ''profile: p1; p2; p3'', ''[clawd]'', ''[end-memory]''] \<and>
   ''- p4'' \<in> set (verbose_sections sample_context (sample_config Essential True)) \<and>
   ''prefers short answers'' \<in> set (verbose_sections sample_context (sample_config Essential True)) \<and>
   tier (sample_config Essential True) \<noteq> Deep"
proof (intro conjI)
  show "tier (sample_config Essential True) \<noteq> Deep" by (simp add: sample_config_def)
qed (simp_all add: sample_compressed sample_verbose)

end
